theory Spec2Isabelle
  imports Main "HOL-Library.List_Lexorder" "HOL-Library.Char_ord"
begin

section \<open>Candidate profile (chatbot.py, class CandidateInfo)\<close>

text \<open>
  Every field of \<^verbatim>\<open>CandidateInfo\<close> is optional and starts as \<^verbatim>\<open>None\<close>.
  Six fields hold a string, \<^verbatim>\<open>desired_positions\<close> holds a list of strings.
\<close>

record candidate_info =
  full_name :: "string option"
  email :: "string option"
  phone :: "string option"
  experience_years :: "string option"
  desired_positions :: "string list option"
  location :: "string option"
  tech_stack :: "string option"

text \<open>The values a field can hold once it is set.\<close>

datatype pyval = PyStr string | PyList "string list"

text \<open>
  \<^verbatim>\<open>self.dict()\<close>: every field in declaration order, with \<^verbatim>\<open>None\<close> for a field
  that is not set.
\<close>

definition dict :: "candidate_info \<Rightarrow> (string \<times> pyval option) list" where
  "dict c =
     [(''full_name'', map_option PyStr (full_name c)),
      (''email'', map_option PyStr (email c)),
      (''phone'', map_option PyStr (phone c)),
      (''experience_years'', map_option PyStr (experience_years c)),
      (''desired_positions'', map_option PyList (desired_positions c)),
      (''location'', map_option PyStr (location c)),
      (''tech_stack'', map_option PyStr (tech_stack c))]"

text \<open>\<^verbatim>\<open>to_dict\<close>: the entries of \<^verbatim>\<open>dict()\<close> whose value is not \<^verbatim>\<open>None\<close>.\<close>

definition to_dict :: "candidate_info \<Rightarrow> (string \<times> pyval) list" where
  "to_dict c = List.map_filter (\<lambda>(k, v). map_option (Pair k) v) (dict c)"

text \<open>\<^verbatim>\<open>f in fields\<close> for a dictionary \<^verbatim>\<open>fields\<close>: \<^verbatim>\<open>f\<close> is one of its keys.\<close>

definition has_key :: "string \<Rightarrow> (string \<times> 'v) list \<Rightarrow> bool" where
  "has_key f d = (f \<in> set (map fst d))"

text \<open>\<^verbatim>\<open>data.get(field)\<close>: the stored value, \<^verbatim>\<open>None\<close> for a missing key.\<close>

definition get :: "(string \<times> pyval option) list \<Rightarrow> string \<Rightarrow> pyval option" where
  "get d k = (case map_of d k of None \<Rightarrow> None | Some v \<Rightarrow> v)"

text \<open>
  Python truth value of a field: \<^verbatim>\<open>None\<close>, the empty string and the empty list are
  false, everything else is true.
\<close>

fun truthy :: "pyval option \<Rightarrow> bool" where
  "truthy None = False"
| "truthy (Some (PyStr s)) = (s \<noteq> [])"
| "truthy (Some (PyList xs)) = (xs \<noteq> [])"

definition required_fields :: "string list" where
  "required_fields = [''full_name'', ''email'', ''tech_stack'']"

definition optional_fields :: "string list" where
  "optional_fields = [''phone'', ''experience_years'', ''desired_positions'', ''location'']"

text \<open>
  \<^verbatim>\<open>completion_percentage\<close>: 15 points for each required field that is a key of
  \<^verbatim>\<open>to_dict()\<close>, 5 for each optional one, and \<^verbatim>\<open>min(total_score, 100)\<close>.
\<close>

definition completion_percentage :: "candidate_info \<Rightarrow> int" where
  "completion_percentage c =
     (let fields = to_dict c;
          required_complete = int (length (filter (\<lambda>f. has_key f fields) required_fields));
          optional_complete = int (length (filter (\<lambda>f. has_key f fields) optional_fields));
          total_score = required_complete * 15 + optional_complete * 5
      in min total_score 100)"

text \<open>
  \<^verbatim>\<open>missing_fields\<close>: the required fields whose value is false, in order; the optional
  fields are looked at only when no required field is missing.
\<close>

definition missing_fields :: "candidate_info \<Rightarrow> string list" where
  "missing_fields c =
     (let data = dict c;
          missing = filter (\<lambda>field. \<not> truthy (get data field)) required_fields
      in if missing = []
         then missing @ filter (\<lambda>field. \<not> truthy (get data field)) optional_fields
         else missing)"

text \<open>\<^verbatim>\<open>is_complete\<close>: all seven fields have a true value.\<close>

definition is_complete :: "candidate_info \<Rightarrow> bool" where
  "is_complete c =
     (let data = dict c
      in list_all (\<lambda>field. truthy (get data field))
           [''full_name'', ''email'', ''phone'', ''experience_years'',
            ''desired_positions'', ''location'', ''tech_stack''])"

text \<open>The names of the fields that are set: the keys of \<^verbatim>\<open>to_dict()\<close>.\<close>

definition field_names :: "candidate_info \<Rightarrow> string set" where
  "field_names c = set (map fst (to_dict c))"

text \<open>The profile a session starts with: \<^verbatim>\<open>CandidateInfo()\<close>.\<close>

definition empty_info :: candidate_info where
  "empty_info = \<lparr>full_name = None, email = None, phone = None, experience_years = None,
     desired_positions = None, location = None, tech_stack = None\<rparr>"

text \<open>Number of points a field contributes: its weight when it is set, else nothing.\<close>

definition points :: "int \<Rightarrow> 'a option \<Rightarrow> int" where
  "points w v = (case v of None \<Rightarrow> 0 | Some _ \<Rightarrow> w)"

text \<open>A profile with only the three required fields, and one with a phone number added.\<close>

definition info_required :: candidate_info where
  "info_required = empty_info\<lparr>full_name := Some ''John Smith'', email := Some ''john@x.com'',
     tech_stack := Some ''Python, Django''\<rparr>"


definition info_with_phone :: candidate_info where
  "info_with_phone = info_required\<lparr>phone := Some ''+49 30 1234567''\<rparr>"

text \<open>A profile with all seven fields set.\<close>

definition info_full :: candidate_info where
  "info_full = \<lparr>full_name = Some ''John Smith'', email = Some ''john@x.com'',
     phone = Some ''+49 30 1234567'', experience_years = Some ''3'',
     desired_positions = Some [''Backend Developer''], location = Some ''Berlin'',
     tech_stack = Some ''Python, Django''\<rparr>"

section \<open>Python strings and the regular expressions the code uses\<close>

text \<open>
  A Python \<^verbatim>\<open>str\<close> is modelled as a \<^typ>\<open>string\<close> whose characters are the code
  points 0 to 255 (Latin-1); the classes below are those of the Unicode database for
  that range, which is what \<^verbatim>\<open>str.isspace\<close>, \<^verbatim>\<open>str.lower\<close> and the \<^verbatim>\<open>re\<close> module
  use for \<^verbatim>\<open>str\<close> patterns.
\<close>

definition code_point :: "char \<Rightarrow> nat" where
  "code_point c = of_char c"

text \<open>Whitespace: what \<^verbatim>\<open>str.strip()\<close> removes and \<^verbatim>\<open>\s\<close> matches.\<close>

definition is_space :: "char \<Rightarrow> bool" where
  "is_space c =
     (let n = code_point c
      in (9 \<le> n \<and> n \<le> 13) \<or> (28 \<le> n \<and> n \<le> 32) \<or> n = 133 \<or> n = 160)"

text \<open>
  Word characters, what \<^verbatim>\<open>\w\<close> matches: the underscore and every alphanumeric
  character (letters, digits and the numeric characters of Latin-1).
\<close>

definition is_word_char :: "char \<Rightarrow> bool" where
  "is_word_char c =
     (let n = code_point c
      in (48 \<le> n \<and> n \<le> 57) \<or> (65 \<le> n \<and> n \<le> 90) \<or> n = 95 \<or> (97 \<le> n \<and> n \<le> 122)
         \<or> n = 170 \<or> n = 178 \<or> n = 179 \<or> n = 181 \<or> (185 \<le> n \<and> n \<le> 186)
         \<or> (188 \<le> n \<and> n \<le> 190) \<or> (192 \<le> n \<and> n \<le> 214) \<or> (216 \<le> n \<and> n \<le> 246)
         \<or> 248 \<le> n)"

text \<open>\<^verbatim>\<open>str.lower()\<close>: the upper-case letters move to their lower-case letter.\<close>

definition lower_char :: "char \<Rightarrow> char" where
  "lower_char c =
     (let n = code_point c
      in if (65 \<le> n \<and> n \<le> 90) \<or> (192 \<le> n \<and> n \<le> 214) \<or> (216 \<le> n \<and> n \<le> 222)
         then char_of (n + 32) else c)"

definition lower :: "string \<Rightarrow> string" where
  "lower s = map lower_char s"

text \<open>\<^verbatim>\<open>str.strip()\<close>: whitespace removed at both ends.\<close>

definition strip :: "string \<Rightarrow> string" where
  "strip s = rev (dropWhile is_space (rev (dropWhile is_space s)))"

text \<open>\<^verbatim>\<open>sub in s\<close> for strings: \<^verbatim>\<open>sub\<close> occurs in \<^verbatim>\<open>s\<close> as a contiguous piece.\<close>

fun starts_with :: "string \<Rightarrow> string \<Rightarrow> bool" where
  "starts_with [] s = True"
| "starts_with (c # cs) [] = False"
| "starts_with (c # cs) (d # ds) = (c = d \<and> starts_with cs ds)"

fun contains :: "string \<Rightarrow> string \<Rightarrow> bool" where
  "contains sub [] = (sub = [])"
| "contains sub (d # ds) = (starts_with sub (d # ds) \<or> contains sub ds)"

text \<open>
  The regular expressions of \<^verbatim>\<open>_check_exit_intent\<close> are sequences of three kinds of
  item: literal text, the word boundary \<^verbatim>\<open>\b\<close> and the whitespace run \<^verbatim>\<open>\s+\<close>; a
  pattern either starts with \<^verbatim>\<open>^\<close> (it can match at position 0 only) or not (it
  can match at any position).
\<close>

datatype item = Lit string | Boundary | Spaces

datatype pattern = Anchored "item list" | Floating "item list"

text \<open>
  \<^verbatim>\<open>\b\<close> at position \<open>i\<close> of \<open>t\<close>: exactly one of the characters before and after
  the position is a word character (a missing character counts as a non-word one).
\<close>

definition word_before :: "string \<Rightarrow> nat \<Rightarrow> bool" where
  "word_before t i = (0 < i \<and> i \<le> length t \<and> is_word_char (t ! (i - 1)))"

definition word_after :: "string \<Rightarrow> nat \<Rightarrow> bool" where
  "word_after t i = (i < length t \<and> is_word_char (t ! i))"

definition boundary :: "string \<Rightarrow> nat \<Rightarrow> bool" where
  "boundary t i = (word_before t i \<noteq> word_after t i)"

text \<open>
  The items match the text \<open>t\<close> from position \<open>i\<close> on. \<^verbatim>\<open>\s+\<close> takes one or more
  whitespace characters; every length is tried, as the backtracking matcher does.
\<close>

fun match_items :: "item list \<Rightarrow> string \<Rightarrow> nat \<Rightarrow> bool" where
  "match_items [] t i = True"
| "match_items (Lit w # r) t i =
     (starts_with w (drop i t) \<and> match_items r t (i + length w))"
| "match_items (Boundary # r) t i = (boundary t i \<and> match_items r t i)"
| "match_items (Spaces # r) t i =
     list_ex (\<lambda>k. list_all is_space (take k (drop i t)) \<and> match_items r t (i + k))
       [1..<Suc (length t - i)]"

text \<open>\<^verbatim>\<open>re.search(pattern, t)\<close> as a truth value: the pattern matches somewhere.\<close>

fun re_search :: "pattern \<Rightarrow> string \<Rightarrow> bool" where
  "re_search (Anchored p) t = match_items p t 0"
| "re_search (Floating p) t = list_ex (match_items p t) [0..<Suc (length t)]"

section \<open>Exit intent (chatbot.py, HiringAssistant._check_exit_intent)\<close>

definition exit_patterns :: "pattern list" where
  "exit_patterns =
     [Anchored [Lit ''bye'', Boundary],
      Anchored [Lit ''goodbye'', Boundary],
      Floating [Boundary, Lit ''exit'', Spaces, Lit ''interview'', Boundary],
      Floating [Boundary, Lit ''quit'', Spaces, Lit ''screening'', Boundary],
      Floating [Boundary, Lit ''end'', Spaces, Lit ''chat'', Boundary],
      Floating [Boundary, Lit ''end'', Spaces, Lit ''conversation'', Boundary],
      Anchored [Lit ''stop'', Boundary],
      Anchored [Lit ''exit'', Boundary],
      Anchored [Lit ''quit'', Boundary]]"

definition check_exit_intent :: "string \<Rightarrow> bool" where
  "check_exit_intent text =
     (let text_lower = strip (lower text)
      in if list_ex (\<lambda>pattern. re_search pattern text_lower) exit_patterns then True
         else if text_lower \<in> set [''bye'', ''goodbye'', ''exit'', ''quit'', ''stop''] then True
         else False)"

section \<open>Technology lists (utils.py, class TechStackParser)\<close>

definition CATEGORIES :: "(string \<times> string list) list" where
  "CATEGORIES =
     [(''languages'', [''python'', ''java'', ''c'', ''javascript'', ''typescript'', ''c++'',
         ''c#'', ''ruby'', ''go'', ''rust'', ''php'', ''swift'', ''kotlin'']),
      (''frontend'', [''react'', ''angular'', ''vue'', ''svelte'', ''html'', ''css'', ''jquery'',
         ''bootstrap'', ''tailwind'']),
      (''backend'', [''django'', ''flask'', ''spring'', ''express'', ''node.js'', ''laravel'',
         ''rails'', ''asp.net'']),
      (''databases'', [''sql'', ''mysql'', ''postgresql'', ''mongodb'', ''redis'',
         ''elasticsearch'', ''cassandra'', ''oracle'']),
      (''devops'', [''docker'', ''kubernetes'', ''jenkins'', ''aws'', ''azure'', ''gcp'',
         ''terraform'', ''ansible'']),
      (''tools'', [''git'', ''jira'', ''confluence'', ''postman'', ''vscode'', ''pycharm''])]"

text \<open>
  \<^verbatim>\<open>re.split(r'[,;\s]+', s)\<close>: the pieces of \<open>s\<close> between the maximal runs of
  commas, semicolons and whitespace. A run at the start or at the end of \<open>s\<close> leaves
  an empty piece there. \<open>cur\<close> is the piece being read, reversed; \<open>in_run\<close> says that
  the previous character was a separator.
\<close>

definition is_separator :: "char \<Rightarrow> bool" where
  "is_separator c = (c = CHR '','' \<or> c = CHR '';'' \<or> is_space c)"

fun re_split_from :: "string \<Rightarrow> bool \<Rightarrow> string \<Rightarrow> string list" where
  "re_split_from cur in_run [] = [rev cur]"
| "re_split_from cur in_run (c # cs) =
     (if is_separator c
      then (if in_run then re_split_from cur True cs else rev cur # re_split_from [] True cs)
      else re_split_from (c # cur) False cs)"

definition re_split :: "string \<Rightarrow> string list" where
  "re_split s = re_split_from [] False s"

text \<open>
  The test in the inner loop of \<^verbatim>\<open>parse\<close>: a keyword of at most two characters
  matches a token that is equal to it; a longer keyword matches when it occurs in the
  token or the token occurs in it.
\<close>

definition keyword_matches :: "string \<Rightarrow> string \<Rightarrow> bool" where
  "keyword_matches tech keyword =
     (if length keyword \<le> 2 then tech = keyword
      else contains keyword tech \<or> contains tech keyword)"

text \<open>
  The tokens found for one category: a token is appended once, at its first matching
  keyword (the \<^verbatim>\<open>break\<close>), so it is found when some keyword matches it.
\<close>

definition found_in :: "string list \<Rightarrow> string list \<Rightarrow> string list" where
  "found_in keywords techs = filter (\<lambda>tech. list_ex (keyword_matches tech) keywords) techs"

text \<open>
  \<^verbatim>\<open>parse\<close>. The result is the dictionary as a list of entries in insertion order.
  A category is entered only when something was found for it, with
  \<^verbatim>\<open>list(set(found))\<close>: the tokens found without repetition (Python leaves their
  order open; the model keeps the order of \<^const>\<open>remdups\<close>). The tokens that are in
  no category follow under \<^verbatim>\<open>other\<close>, repetitions included.
\<close>

definition categorize :: "string list \<Rightarrow> (string \<times> string list) list" where
  "categorize techs =
     concat (map (\<lambda>(category, keywords).
        (let found = found_in keywords techs
         in if found \<noteq> [] then [(category, remdups found)] else [])) CATEGORIES)"

definition parse :: "string \<Rightarrow> (string \<times> string list) list" where
  "parse tech_stack_str =
     (if tech_stack_str = [] then []
      else
        (let techs = map strip (filter (\<lambda>t. strip t \<noteq> [])
                        (re_split (lower tech_stack_str)));
             result = categorize techs;
             all_categorized = concat (map snd result);
             uncategorized = filter (\<lambda>t. t \<notin> set all_categorized) techs
         in if uncategorized \<noteq> [] then result @ [(''other'', uncategorized)] else result))"

text \<open>The tokens a parse result holds for a category (none when the key is missing).\<close>

definition tokens_of :: "(string \<times> string list) list \<Rightarrow> string \<Rightarrow> string set" where
  "tokens_of result category = (case map_of result category of None \<Rightarrow> {} | Some ts \<Rightarrow> set ts)"

section \<open>Fallback questions (chatbot.py, HiringAssistant._get_enhanced_fallback_questions)\<close>

text \<open>What the code can raise on the way.\<close>

datatype error = KeyError string | IndexError

text \<open>
  An entry of \<^verbatim>\<open>fallback_map\<close> is either the name of another key (an alias such as
  \<^verbatim>\<open>'js': 'javascript'\<close>) or a dictionary from a difficulty tier to a pool of
  questions. Both dictionaries are lists of entries in insertion order, which is the
  order the loop visits them in.
\<close>

datatype pool_entry = Alias string | Tiers "(string \<times> string list) list"

definition fallback_map :: "(string \<times> pool_entry) list" where
  "fallback_map =
     [(''python'', Tiers
         [(''beginner'',
            [''Explain the difference between lists and tuples in Python and when to use each.'',
             ''What are Python decorators and how do you use them with a practical example?'',
             ''How do you handle multiple exceptions in a single try-except block?'',
             ''Explain list comprehensions and how they differ from traditional for-loops.'',
             ''What is the difference between '==' (equality) and 'is' (identity) in Python?'',
             ''What is a 'lambda' function in Python and what are its limitations?'',
             ''Explain the concept of 'duck typing' in Python.'',
             ''How do you use the 'with' statement for file handling and why is it preferred?'',
             ''What are f-strings and how do they compare to older string formatting methods?'',
             ''Explain the use of 'self' in Python classes.'']),
          (''intermediate'',
            [''Explain how Python handles memory management and the role of the ref-count.'',
             ''What is the Global Interpreter Lock (GIL) and how does it impact multi-core CPU usage?'',
             ''Describe generators and the 'yield' keyword. How do they save memory?'',
             ''How do you implement a custom context manager using the '__enter__' and '__exit__' methods?'',
             ''Explain Method Resolution Order (MRO) and the 'super()' function in complex inheritance.'',
             ''What are 'args' and 'kwargs' and when should you use them in function definitions?'',
             ''Describe the difference between shallow copy and deep copy in Python.'',
             ''What is the purpose of the '__init__.py' file in a Python package?'',
             ''Explain how @property decorators work for getter/setter logic.'',
             ''What is the difference between a class method and a static method?'']),
          (''advanced'',
            [''Explain Python's metaclasses and provide a real-world use case for them.'',
             ''How does Python's 'asyncio' event loop work? Compare it with the threading module.'',
             ''Describe the 'descriptor' protocol and how things like @property are implemented under the hood.'',
             ''How would you profile and optimize a memory-intensive Python application?'',
             ''Explain the internal implementation of Python dictionaries (hash tables).'',
             ''What are 'slots' in Python classes and how do they impact performance?'',
             ''Describe the difference between '__getattr__' and '__getattribute__'.'',
             ''How do you handle cyclic references in Python's garbage collector?'',
             ''Explain the concept of 'monkey patching' and its potential risks.'',
             ''Describe how you would implement a singleton pattern in a thread-safe way in Python.''])]),
      (''javascript'', Tiers
         [(''any'',
            [''Explain closures in JavaScript with a practical example.'',
             ''What's the difference between '==' and '==='? When would you use each?'',
             ''Describe how the event loop works in JavaScript.'',
             ''What are promises and async/await? How do they help?'',
             ''Explain prototypal inheritance in JavaScript.'',
             ''What is 'this' keyword in JavaScript and how does it change context?'',
             ''Explain the difference between var, let, and const.'',
             ''What are arrow functions and how do they differ from regular functions?'',
             ''Explain event delegation in JavaScript.'',
             ''What is hoisting in JavaScript?''])]),
      (''js'', Alias ''javascript''),
      (''react'', Tiers
         [(''any'',
            [''Explain the virtual DOM and its benefits in React.'',
             ''What are React hooks? Explain useState and useEffect with examples.'',
             ''Describe the component lifecycle in React.'',
             ''How do you manage state in large React applications (Redux, Context, etc.)?'',
             ''What's the difference between controlled and uncontrolled components?'',
             ''What is React.memo() and when should you use it?'',
             ''Explain the concept of 'lifting state up' in React.'',
             ''What are Higher-Order Components (HOCs) in React?'',
             ''How does React handle reconciliation?'',
             ''What is the purpose of 'keys' in React lists?''])]),
      (''java'', Tiers
         [(''any'',
            [''Explain the principles of OOP and how Java implements them.'',
             ''What's the difference between abstract classes and interfaces?'',
             ''How does garbage collection work in Java?'',
             ''Explain multithreading in Java and synchronization.'',
             ''What are Java Streams and how do they improve processing?'',
             ''What is the difference between JRE, JDK, and JVM?'',
             ''Explain the 'final' keyword in Java as applied to variables, methods, and classes.'',
             ''What are Checked and Unchecked exceptions in Java?'',
             ''Describe the difference between HashMap and Hashtable.'',
             ''What is the purpose of the 'volatile' keyword in Java?''])]),
      (''html'', Tiers
         [(''any'',
            [''What is Semantic HTML and why is it important for accessibility and SEO?'',
             ''Explain the difference between block, inline, and inline-block elements.'',
             ''What are data attributes and how are they used in modern development?'',
             ''Describe the purpose of the <head> element and the common tags inside it.'',
             ''How do you optimize an HTML page for mobile responsiveness?'',
             ''What is the difference between <div> and <span>?'',
             ''Explain the importance of the <!DOCTYPE html> declaration.'',
             ''How do you use <picture> and <source> tags for responsive images?'',
             ''What is the purpose of the 'alt' attribute in <img> tags?'',
             ''Explain the difference between LocalStorage, SessionStorage, and Cookies.''])]),
      (''css'', Tiers
         [(''any'',
            [''Explain the CSS box model.'',
             ''What's the difference between Flexbox and CSS Grid?'',
             ''Describe different CSS positioning methods (static, relative, absolute, fixed).'',
             ''How do CSS selectors' specificity work?'',
             ''What are CSS variables and how do you use them?''])]),
      (''c'', Tiers
         [(''any'',
            [''Explain pointers and memory management in C.'',
             ''What's the difference between stack and heap memory allocation?'',
             ''Describe the purpose of the 'static' keyword in C.'',
             ''How do you handle error situations in C programming?'',
             ''Explain the difference between a structure and a union.''])])]"

text \<open>
  The seven default questions, \<^verbatim>\<open>f"... {tech_stack} ..."\<close>; \<open>tech\<close> is the
  argument \<^verbatim>\<open>tech_stack\<close> of the function.
\<close>

definition defaults :: "string \<Rightarrow> string list" where
  "defaults tech =
     [''Describe your overall experience with '' @ tech
        @ ''. What significant projects have you delivered?'',
      ''What's the most challenging technical problem you've solved using '' @ tech @ ''?'',
      ''How do you stay updated with the latest developments in '' @ tech @ ''?'',
      ''Explain a complex concept in '' @ tech
        @ '' as if you were mentoring a junior developer.'',
      ''What best practices and architectural patterns do you prioritize when working with ''
        @ tech @ ''?'',
      ''Describe a situation where you had to debug a complex '' @ tech @ '' issue.'',
      ''How do you approach performance optimization in '' @ tech @ ''?'']"

text \<open>
  The random number generator is the one input of the function that the code does not
  receive as an argument. It is modelled by the positions it picks:
  \<open>sample_indices n k\<close> are the positions \<^verbatim>\<open>random.sample\<close> draws for \<open>k\<close> items
  out of a list of \<open>n\<close>, and \<open>shuffle_order n\<close> is the order \<^verbatim>\<open>random.shuffle\<close>
  puts a list of \<open>n\<close> items in.
\<close>

record random_source =
  sample_indices :: "nat \<Rightarrow> nat \<Rightarrow> nat list"
  shuffle_order :: "nat \<Rightarrow> nat list"

text \<open>
  What Python guarantees of the two functions: a sample of \<open>k \<le> n\<close> items is made
  of \<open>k\<close> different positions below \<open>n\<close>, and a shuffle is a rearrangement of all
  \<open>n\<close> positions.
\<close>

definition valid_random :: "random_source \<Rightarrow> bool" where
  "valid_random rs =
     ((\<forall>n k. k \<le> n \<longrightarrow> length (sample_indices rs n k) = k \<and> distinct (sample_indices rs n k)
                \<and> set (sample_indices rs n k) \<subseteq> {..<n})
      \<and> (\<forall>n. length (shuffle_order rs n) = n \<and> set (shuffle_order rs n) = {..<n}))"

definition random_sample :: "random_source \<Rightarrow> 'a list \<Rightarrow> nat \<Rightarrow> 'a list" where
  "random_sample rs population k = map (\<lambda>i. population ! i) (sample_indices rs (length population) k)"

definition random_shuffle :: "random_source \<Rightarrow> 'a list \<Rightarrow> 'a list" where
  "random_shuffle rs xs = map (\<lambda>i. xs ! i) (shuffle_order rs (length xs))"

text \<open>The generator that always picks the first positions, in order.\<close>

definition first_positions :: random_source where
  "first_positions = \<lparr>sample_indices = (\<lambda>n k. [0..<k]), shuffle_order = (\<lambda>n. [0..<n])\<rparr>"

text \<open>
  \<^verbatim>\<open>if isinstance(q_data, str): q_data = fallback_map[q_data]\<close>. The result is \<open>None\<close>
  when the entry found under the alias is again a string, so that the test
  \<^verbatim>\<open>isinstance(q_data, dict)\<close> fails and the loop goes on.
\<close>

fun resolve :: "pool_entry \<Rightarrow> error + (string \<times> string list) list option" where
  "resolve (Tiers tiers) = Inr (Some tiers)"
| "resolve (Alias a) =
     (case map_of fallback_map a of
        None \<Rightarrow> Inl (KeyError a)
      | Some (Tiers tiers) \<Rightarrow> Inr (Some tiers)
      | Some (Alias b) \<Rightarrow> Inr None)"

text \<open>
  The pool for a difficulty: the tier itself when it is a key, else
  \<^verbatim>\<open>q_data.get('any', q_data.get('intermediate', list(q_data.values())[0]))\<close>, whose
  innermost argument is evaluated first and raises on an empty dictionary.
\<close>

definition select_pool :: "(string \<times> string list) list \<Rightarrow> string \<Rightarrow> error + string list" where
  "select_pool q_data difficulty =
     (case map_of q_data difficulty of
        Some pool \<Rightarrow> Inr pool
      | None \<Rightarrow>
          (case q_data of
             [] \<Rightarrow> Inl IndexError
           | (tier, first_pool) # rest \<Rightarrow>
               (case map_of q_data ''any'' of
                  Some pool \<Rightarrow> Inr pool
                | None \<Rightarrow>
                    (case map_of q_data ''intermediate'' of
                       Some pool \<Rightarrow> Inr pool
                     | None \<Rightarrow> Inr first_pool))))"

text \<open>
  The loop over \<^verbatim>\<open>fallback_map.items()\<close>: the first key that occurs in the
  lower-cased technology string decides. The result is \<open>None\<close> when the loop ends
  without returning.
\<close>

fun first_match ::
  "random_source \<Rightarrow> (string \<times> pool_entry) list \<Rightarrow> string \<Rightarrow> string
     \<Rightarrow> (error + string list) option" where
  "first_match rs [] tech_stack_lower difficulty = None"
| "first_match rs ((key, q_data) # items) tech_stack_lower difficulty =
     (if contains key tech_stack_lower
      then (case resolve q_data of
              Inl e \<Rightarrow> Some (Inl e)
            | Inr None \<Rightarrow> first_match rs items tech_stack_lower difficulty
            | Inr (Some tiers) \<Rightarrow>
                (case select_pool tiers difficulty of
                   Inl e \<Rightarrow> Some (Inl e)
                 | Inr pool \<Rightarrow> Some (Inr (random_sample rs pool (min 3 (length pool))))))
      else first_match rs items tech_stack_lower difficulty)"

definition get_enhanced_fallback_questions ::
  "random_source \<Rightarrow> string \<Rightarrow> string \<Rightarrow> error + string list" where
  "get_enhanced_fallback_questions rs tech difficulty =
     (case first_match rs fallback_map (lower tech) difficulty of
        Some result \<Rightarrow> result
      | None \<Rightarrow> Inr (take 3 (random_shuffle rs (defaults tech))))"

text \<open>
  What the properties below need of the table: every pool has at least three
  questions, none of them empty, no tier dictionary is empty, and every alias names a
  key that holds a tier dictionary.
\<close>

definition pool_ok :: "string list \<Rightarrow> bool" where
  "pool_ok pool = (3 \<le> length pool \<and> list_all (\<lambda>q. q \<noteq> []) pool)"

definition tiers_ok :: "(string \<times> string list) list \<Rightarrow> bool" where
  "tiers_ok tiers = (tiers \<noteq> [] \<and> list_all (\<lambda>(tier, pool). pool_ok pool) tiers)"

fun entry_ok :: "pool_entry \<Rightarrow> bool" where
  "entry_ok (Tiers tiers) = tiers_ok tiers"
| "entry_ok (Alias a) =
     (case map_of fallback_map a of Some (Tiers tiers) \<Rightarrow> tiers_ok tiers | _ \<Rightarrow> False)"

text \<open>A string has a question mark in it.\<close>

definition has_question_mark :: "string \<Rightarrow> bool" where
  "has_question_mark q = (CHR ''?'' \<in> set q)"

section \<open>Python's \<^verbatim>\<open>float()\<close> on strings\<close>

text \<open>
  The value of a Python float: a finite binary64 number \<open>m * 2 ^ e\<close>, written
  \<open>Finite m e\<close>, one of the two infinities, or not-a-number.
\<close>

datatype pyfloat = Finite int int | PosInf | NegInf | NaN

text \<open>\<open>2 ^ k\<close> for an exponent that is not negative (1 otherwise).\<close>

definition pow2 :: "int \<Rightarrow> int" where
  "pow2 k = 2 ^ nat k"

text \<open>
  \<^verbatim>\<open>x < n\<close> for a float \<open>x\<close> and an integer \<open>n\<close>: exact for finite values, false for
  not-a-number.
\<close>

fun float_less :: "pyfloat \<Rightarrow> int \<Rightarrow> bool" where
  "float_less (Finite m e) n = (if 0 \<le> e then m * pow2 e < n else m < n * pow2 (- e))"
| "float_less PosInf n = False"
| "float_less NegInf n = True"
| "float_less NaN n = False"

text \<open>The number of binary digits of a positive whole number.\<close>

function bit_length :: "int \<Rightarrow> nat" where
  "bit_length n = (if n \<le> 0 then 0 else Suc (bit_length (n div 2)))"
  by pat_completeness auto
termination
  by (relation "measure nat") auto

declare bit_length.simps [simp del]

text \<open>
  The fraction \<open>a / b\<close> (\<open>a \<ge> 0\<close>, \<open>b > 0\<close>) rounded to the nearest binary64 number, ties to
  the even mantissa: \<open>e\<close> is the binary exponent of the fraction, not below the
  smallest normal exponent; the mantissa has 53 bits; a result of \<open>2 ^ 1024\<close> or more
  is infinite.
\<close>

definition round_binary64 :: "int \<Rightarrow> int \<Rightarrow> pyfloat" where
  "round_binary64 a b =
     (if a \<le> 0 then Finite 0 0
      else
        (let d = int (bit_length a) - int (bit_length b);
             e = (if (if 0 \<le> d then b * pow2 d \<le> a else b \<le> a * pow2 (- d))
                  then d else d - 1);
             s = max e (- 1022) - 52;
             A = (if 0 \<le> s then a else a * pow2 (- s));
             B = (if 0 \<le> s then b * pow2 s else b);
             q = A div B;
             r = A mod B;
             n = (if 2 * r < B then q else if B < 2 * r then q + 1
                  else if even q then q else q + 1)
         in if 0 \<le> s \<and> pow2 1024 \<le> n * pow2 s then PosInf else Finite n s))"

definition negate :: "pyfloat \<Rightarrow> pyfloat" where
  "negate x = (case x of Finite m e \<Rightarrow> Finite (- m) e | PosInf \<Rightarrow> NegInf
               | NegInf \<Rightarrow> PosInf | NaN \<Rightarrow> NaN)"

definition is_digit :: "char \<Rightarrow> bool" where
  "is_digit c = (48 \<le> code_point c \<and> code_point c \<le> 57)"

definition digit_value :: "char \<Rightarrow> int" where
  "digit_value c = int (code_point c) - 48"

text \<open>The number a string of decimal digits denotes.\<close>

definition digits_value :: "string \<Rightarrow> int" where
  "digits_value ds = foldl (\<lambda>n c. 10 * n + digit_value c) 0 ds"

text \<open>
  Before parsing, \<^verbatim>\<open>float\<close> replaces every character from code point 127 on by a
  space when it is whitespace and by a question mark otherwise (Latin-1 has no
  decimal digit there), and removes the ASCII whitespace at both ends.
\<close>

definition ascii_space :: "char \<Rightarrow> bool" where
  "ascii_space c = ((9 \<le> code_point c \<and> code_point c \<le> 13) \<or> code_point c = 32)"

definition to_ascii :: "string \<Rightarrow> string" where
  "to_ascii s =
     map (\<lambda>c. if 127 \<le> code_point c then (if is_space c then CHR '' '' else CHR ''?'') else c) s"

definition strip_ascii :: "string \<Rightarrow> string" where
  "strip_ascii s = rev (dropWhile ascii_space (rev (dropWhile ascii_space s)))"

text \<open>
  Underscores: allowed only between two digits. The result is the text without
  them, or \<open>None\<close>. \<open>prev\<close> is the previous character.
\<close>

fun drop_underscores :: "char \<Rightarrow> string \<Rightarrow> string option" where
  "drop_underscores prev [] = (if prev = CHR ''_'' then None else Some [])"
| "drop_underscores prev (c # cs) =
     (if c = CHR ''_''
      then (if is_digit prev then drop_underscores c cs else None)
      else if prev = CHR ''_'' \<and> \<not> is_digit c then None
      else map_option ((#) c) (drop_underscores c cs))"

text \<open>
  The exponent part: nothing, or \<^verbatim>\<open>e\<close>, an optional sign and at least one digit.
\<close>

definition parse_exponent :: "string \<Rightarrow> int option" where
  "parse_exponent s =
     (case s of
        [] \<Rightarrow> Some 0
      | c # r \<Rightarrow>
          (if c = CHR ''e'' \<or> c = CHR ''E''
           then (let neg = (r \<noteq> [] \<and> hd r = CHR ''-'');
                     ds = (if r \<noteq> [] \<and> (hd r = CHR ''-'' \<or> hd r = CHR ''+'') then tl r else r)
                 in if ds \<noteq> [] \<and> list_all is_digit ds
                    then Some (if neg then - digits_value ds else digits_value ds)
                    else None)
           else None))"

text \<open>
  An unsigned decimal number: digits, an optional point and more digits (at least one
  digit in all), and the exponent part. Its value is the digits read as a whole
  number times a power of ten.
\<close>

definition parse_decimal :: "string \<Rightarrow> pyfloat option" where
  "parse_decimal s =
     (let ip = takeWhile is_digit s;
          r1 = dropWhile is_digit s;
          has_point = (r1 \<noteq> [] \<and> hd r1 = CHR ''.'');
          fp = (if has_point then takeWhile is_digit (tl r1) else []);
          r2 = (if has_point then dropWhile is_digit (tl r1) else r1)
      in if ip = [] \<and> fp = [] then None
         else (case parse_exponent r2 of
                 None \<Rightarrow> None
               | Some ex \<Rightarrow>
                   (let n = digits_value (ip @ fp);
                        p = ex - int (length fp)
                    in Some (if 0 \<le> p then round_binary64 (n * 10 ^ nat p) 1
                             else round_binary64 n (10 ^ nat (- p))))))"

definition parse_unsigned :: "string \<Rightarrow> pyfloat option" where
  "parse_unsigned s =
     (if lower s = ''inf'' \<or> lower s = ''infinity'' then Some PosInf
      else if lower s = ''nan'' then Some NaN
      else parse_decimal s)"

text \<open>\<^verbatim>\<open>float(s)\<close> for a string: the value, or \<open>None\<close> for \<^verbatim>\<open>ValueError\<close>.\<close>

definition py_float :: "string \<Rightarrow> pyfloat option" where
  "py_float s =
     (case drop_underscores (CHR 0x00) (strip_ascii (to_ascii s)) of
        None \<Rightarrow> None
      | Some t \<Rightarrow>
          (case t of
             [] \<Rightarrow> None
           | c # r \<Rightarrow>
               (if c = CHR ''-'' then map_option negate (parse_unsigned r)
                else if c = CHR ''+'' then parse_unsigned r
                else parse_unsigned t)))"

section \<open>Difficulty tier (utils.py, TechStackParser.get_difficulty_level)\<close>

text \<open>
  \<^verbatim>\<open>years = float(experience) if experience else 0\<close>: an argument that is \<^verbatim>\<open>None\<close>
  or the empty string counts as 0 years and is not parsed. Any exception, that is a
  string that \<^verbatim>\<open>float\<close> rejects, gives \<^verbatim>\<open>"intermediate"\<close>. \<open>tech\<close> is the argument
  \<^verbatim>\<open>tech_stack\<close>, which the function does not read.
\<close>

definition years_of :: "string option \<Rightarrow> pyfloat option" where
  "years_of experience =
     (case experience of
        None \<Rightarrow> Some (Finite 0 0)
      | Some s \<Rightarrow> if s = [] then Some (Finite 0 0) else py_float s)"

definition get_difficulty_level :: "string \<Rightarrow> string option \<Rightarrow> string" where
  "get_difficulty_level tech experience =
     (case years_of experience of
        None \<Rightarrow> ''intermediate''
      | Some years \<Rightarrow>
          if float_less years 2 then ''beginner''
          else if float_less years 5 then ''intermediate''
          else ''advanced'')"

section \<open>The conversation engine (chatbot.py, class HiringAssistant)\<close>

text \<open>
  The state of a session. The phase is the Python string
  \<^verbatim>\<open>self.conversation_phase\<close>; an entry of the history is a role and a content.
\<close>

record session =
  candidate_data :: candidate_info
  conversation_phase :: string
  questions :: "string list"
  current_question_index :: nat
  conversation_history :: "(string \<times> string) list"

text \<open>
  What a call of \<^verbatim>\<open>process_message\<close> receives from outside the program.

  \<^item> \<open>extract_info phase data user_input\<close> is the profile \<^verbatim>\<open>_extract_info\<close> leaves
    behind. That method changes nothing but the profile; what it finds depends on the
    reply of the generation service to the extraction prompt (and on pattern matching
    when the reply cannot be used), so its outcome is an input here.
  \<^item> \<open>generate request\<close> is the reply of \<^verbatim>\<open>self.gemini.generate\<close> to a prompt, or
    \<open>None\<close> when the call raises. A prompt is given by the values put into its
    template.
  \<^item> \<open>random_for tech\<close> is the random generator at the time the fallback questions
    for \<open>tech\<close> are drawn.
\<close>

datatype request =
    QuestionRequest string string
  | ConclusionRequest string string int

record world =
  extract_info :: "string \<Rightarrow> candidate_info \<Rightarrow> string \<Rightarrow> candidate_info"
  generate :: "request \<Rightarrow> string option"
  random_for :: "string \<Rightarrow> random_source"

text \<open>\<^verbatim>\<open>value or default\<close> for an optional string.\<close>

definition or_default :: "string option \<Rightarrow> string \<Rightarrow> string" where
  "or_default v d = (case v of None \<Rightarrow> d | Some s \<Rightarrow> if s = [] then d else s)"

text \<open>\<^verbatim>\<open>str(n)\<close> for a number that is not negative.\<close>

definition digit_char :: "nat \<Rightarrow> char" where
  "digit_char n = char_of (48 + n)"

function str_nat :: "nat \<Rightarrow> string" where
  "str_nat n = (if n < 10 then [digit_char n] else str_nat (n div 10) @ [digit_char (n mod 10)])"
  by pat_completeness auto
termination
  by (relation "measure id") auto

declare str_nat.simps [simp del]

text \<open>\<^verbatim>\<open>s.replace('_', ' ')\<close>.\<close>

definition replace_underscores :: "string \<Rightarrow> string" where
  "replace_underscores s = map (\<lambda>c. if c = CHR ''_'' then CHR '' '' else c) s"

text \<open>\<^verbatim>\<open>s.split(sep)\<close> for a separator of one character.\<close>

fun split_on_from :: "char \<Rightarrow> string \<Rightarrow> string \<Rightarrow> string list" where
  "split_on_from sep cur [] = [rev cur]"
| "split_on_from sep cur (c # cs) =
     (if c = sep then rev cur # split_on_from sep [] cs else split_on_from sep (c # cur) cs)"

definition split_on :: "char \<Rightarrow> string \<Rightarrow> string list" where
  "split_on sep s = split_on_from sep [] s"

definition phase_questions :: "(string \<times> string) list" where
  "phase_questions =
     [(''full_name'', ''What is your full name?''),
      (''email'', ''What's your email address?''),
      (''phone'', ''And your phone number?''),
      (''experience_years'', ''How many years of professional experience do you have?''),
      (''desired_positions'', ''What position(s) are you interested in?''),
      (''location'', ''Where are you currently located?''),
      (''tech_stack'', ''Please list your tech stack (programming languages, frameworks, databases, and tools you're proficient in):'')]"

definition get_next_question :: "candidate_info \<Rightarrow> string" where
  "get_next_question data =
     (case missing_fields data of
        [] \<Rightarrow> ''Is there anything else you'd like to add about your experience or tech stack?''
      | next_field # rest \<Rightarrow>
          (case map_of phase_questions next_field of
             Some question \<Rightarrow> question
           | None \<Rightarrow> ''Could you provide your '' @ replace_underscores next_field @ ''?''))"

text \<open>
  \<^verbatim>\<open>_get_conclusion\<close>. The early variant is a fixed text around the name; the other
  one is the reply of the generation service, or a fixed text when the call raises.
\<close>

definition early_conclusion :: "candidate_info \<Rightarrow> string" where
  "early_conclusion data =
     ''Thank you for your time today, '' @ or_default (full_name data) ''there''
     @ ''! Our team will review the information shared. We'll be in touch soon regarding next steps. Have a great day!''"

definition get_conclusion :: "world \<Rightarrow> candidate_info \<Rightarrow> bool \<Rightarrow> string" where
  "get_conclusion w data early =
     (let name = or_default (full_name data) ''there'';
          tech = or_default (tech_stack data) ''your background'';
          completion = completion_percentage data
      in if early then early_conclusion data
         else (case generate w (ConclusionRequest name tech completion) of
                 Some reply \<Rightarrow> reply
               | None \<Rightarrow>
                   ''Thank you for completing the screening, '' @ name
                   @ ''! Our team will review your experience with '' @ tech
                   @ '' and get back to you within 2-3 business days. Have a great day!''))"

text \<open>
  The lines of a reply that are kept as questions: a line, stripped, that is not
  empty and starts with a digit or a Q or has a question mark; its leading digits,
  Qs, points, whitespace and hyphens are removed; it is kept when what is left has a
  question mark.
\<close>

definition is_numbering :: "char \<Rightarrow> bool" where
  "is_numbering c =
     (is_digit c \<or> c = CHR ''Q'' \<or> c = CHR ''q'' \<or> c = CHR ''.'' \<or> is_space c \<or> c = CHR ''-'')"

definition parse_questions :: "string \<Rightarrow> string list" where
  "parse_questions response =
     concat (map (\<lambda>raw.
        (let line = strip raw
         in if line \<noteq> [] \<and> (is_digit (hd line) \<or> hd line = CHR ''Q'' \<or> hd line = CHR ''q''
                            \<or> has_question_mark line)
            then (let clean_line = dropWhile is_numbering line
                  in if has_question_mark clean_line then [clean_line] else [])
            else [])) (split_on (CHR 0x0A) response))"

text \<open>
  The questions for one technology: the first three parsed from the reply, or the
  fallback questions when fewer than three were parsed or the call raised.
\<close>

definition questions_for ::
  "world \<Rightarrow> string \<Rightarrow> string \<Rightarrow> error + string list" where
  "questions_for w experience tech =
     (let difficulty = get_difficulty_level tech (Some experience)
      in case generate w (QuestionRequest tech experience) of
           None \<Rightarrow> get_enhanced_fallback_questions (random_for w tech) tech difficulty
         | Some response \<Rightarrow>
             (let tech_questions = parse_questions response
              in if length tech_questions < 3
                 then map_sum id (take 3)
                        (get_enhanced_fallback_questions (random_for w tech) tech difficulty)
                 else Inr (take 3 tech_questions)))"

fun questions_for_all ::
  "world \<Rightarrow> string \<Rightarrow> string list \<Rightarrow> error + string list" where
  "questions_for_all w experience [] = Inr []"
| "questions_for_all w experience (tech # techs) =
     (case questions_for w experience tech of
        Inl e \<Rightarrow> Inl e
      | Inr qs \<Rightarrow> map_sum id ((@) qs) (questions_for_all w experience techs))"

text \<open>
  \<^verbatim>\<open>_generate_technical_questions\<close>, in three parts. The technologies are the
  tokens of \<^verbatim>\<open>parse\<close> (the pieces between commas when it finds none), without
  repetition and sorted.
\<close>

definition technologies :: "string \<Rightarrow> string list" where
  "technologies tech_stack_str =
     (let parsed = concat (map snd (parse tech_stack_str))
      in sort (remdups
           (if parsed = []
            then map strip (filter (\<lambda>t. strip t \<noteq> []) (split_on (CHR '','') tech_stack_str))
            else parsed)))"

text \<open>
  The question list: the questions of every technology in turn; when there are none,
  the fallback questions for the whole string at the intermediate tier.
\<close>

definition final_questions :: "world \<Rightarrow> string \<Rightarrow> string \<Rightarrow> error + string list" where
  "final_questions w tech_stack_str experience =
     (case questions_for_all w experience (technologies tech_stack_str) of
        Inl e \<Rightarrow> Inl e
      | Inr generated \<Rightarrow>
          if generated = []
          then get_enhanced_fallback_questions (random_for w tech_stack_str)
                 tech_stack_str ''intermediate''
          else Inr generated)"

text \<open>The response: the introduction and the first question.\<close>

definition technical_intro :: "string \<Rightarrow> nat \<Rightarrow> string \<Rightarrow> string" where
  "technical_intro tech_stack_str n first_question =
     ''Excellent. Based on your profile, I've prepared a technical assessment to discuss your expertise in **''
     @ tech_stack_str @ ''**.'' @ [CHR 0x0A, CHR 0x0A]
     @ ''I have '' @ str_nat n
     @ '' questions for you, covering each of these areas. Let's begin.''
     @ [CHR 0x0A, CHR 0x0A] @ ''**Question 1:** '' @ first_question"

text \<open>
  The result is the response and the question list (\<^verbatim>\<open>self.questions[0]\<close> raises on
  an empty list); the question index is reset to 0 by the caller below.
\<close>

definition generate_technical_questions ::
  "world \<Rightarrow> candidate_info \<Rightarrow> error + (string \<times> string list)" where
  "generate_technical_questions w data =
     (let tech_stack_str = or_default (tech_stack data) ''various technologies'';
          experience = or_default (experience_years data) ''mid-level''
      in case final_questions w tech_stack_str experience of
           Inl e \<Rightarrow> Inl e
         | Inr qs \<Rightarrow>
             (case qs of
                [] \<Rightarrow> Inl IndexError
              | q # rest \<Rightarrow> Inr (technical_intro tech_stack_str (length qs) q, qs)))"

text \<open>\<^verbatim>\<open>_get_fallback_response\<close>, for a phase that is none of the four.\<close>

definition get_fallback_response :: "session \<Rightarrow> string" where
  "get_fallback_response s =
     (if conversation_phase s = ''InfoGathering''
      then (case missing_fields (candidate_data s) of
              field # rest \<Rightarrow>
                ''I'm still collecting your information. Could you please provide your ''
                @ replace_underscores field @ ''?''
            | [] \<Rightarrow> ''Thank you for that. Let's continue with the next question.'')
      else if conversation_phase s = ''Questioning''
      then ''We're on question '' @ str_nat (current_question_index s + 1) @ '' of ''
           @ str_nat (length (questions s)) @ ''. Could you please answer the current question?''
      else ''I'm here to help with your initial screening. Could you please provide the information I asked for?'')"

text \<open>
  The routing of \<^verbatim>\<open>process_message\<close> after the extraction: the response and the new
  state, before the response is appended to the history.
\<close>

definition route :: "world \<Rightarrow> session \<Rightarrow> error + (string \<times> session)" where
  "route w s =
     (if conversation_phase s = ''Greeting''
      then Inr (''Nice to meet you, '' @ or_default (full_name (candidate_data s)) ''there''
                @ ''! I'll guide you through the screening process.'' @ [CHR 0x0A, CHR 0x0A]
                @ get_next_question (candidate_data s),
                s\<lparr>conversation_phase := ''InfoGathering''\<rparr>)
      else if conversation_phase s = ''InfoGathering''
      then (if is_complete (candidate_data s)
            then (case generate_technical_questions w (candidate_data s) of
                    Inl e \<Rightarrow> Inl e
                  | Inr (response, qs) \<Rightarrow>
                      Inr (response, s\<lparr>conversation_phase := ''Questioning'', questions := qs,
                                       current_question_index := 0\<rparr>))
            else Inr (get_next_question (candidate_data s), s))
      else if conversation_phase s = ''Questioning''
      then (if int (current_question_index s) < int (length (questions s)) - 1
            then (let i = current_question_index s + 1
                  in Inr (''Great answer! Next question:'' @ [CHR 0x0A, CHR 0x0A]
                          @ ''**Question '' @ str_nat (i + 1) @ '':** '' @ questions s ! i,
                          s\<lparr>current_question_index := i\<rparr>))
            else Inr (get_conclusion w (candidate_data s) False,
                      s\<lparr>conversation_phase := ''Conclusion''\<rparr>))
      else if conversation_phase s = ''Conclusion''
      then Inr (get_conclusion w (candidate_data s) False, s)
      else Inr (get_fallback_response s, s))"

text \<open>
  \<^verbatim>\<open>process_message\<close>: the user message is appended to the history; on exit intent
  the early conclusion is returned at once; otherwise the profile is updated by the
  extraction, the message is routed by phase, and the response is appended to the
  history.
\<close>

definition process_message :: "world \<Rightarrow> session \<Rightarrow> string \<Rightarrow> error + (string \<times> session)" where
  "process_message w s user_input =
     (let s1 = s\<lparr>conversation_history := conversation_history s @ [(''user'', user_input)]\<rparr>
      in if check_exit_intent user_input
         then Inr (get_conclusion w (candidate_data s1) True, s1)
         else
           (let s2 = s1\<lparr>candidate_data :=
                       extract_info w (conversation_phase s1) (candidate_data s1) user_input\<rparr>
            in case route w s2 of
                 Inl e \<Rightarrow> Inl e
               | Inr (response, s3) \<Rightarrow>
                   Inr (response,
                        s3\<lparr>conversation_history :=
                             conversation_history s3 @ [(''assistant'', response)]\<rparr>)))"

text \<open>The position of a phase on the path Greeting, InfoGathering, Questioning, Conclusion.\<close>

definition phase_order :: "string \<Rightarrow> nat" where
  "phase_order p =
     (if p = ''Greeting'' then 0 else if p = ''InfoGathering'' then 1
      else if p = ''Questioning'' then 2 else 3)"

text \<open>
  A world for the examples: the extraction finds nothing new (the service replies
  with the empty object; for the messages of the examples the pattern matching that
  replaces a failed reply finds nothing either), every other call of the service
  raises, and the random generator picks the first positions.
\<close>

definition quiet_world :: world where
  "quiet_world = \<lparr>extract_info = (\<lambda>phase data user_input. data),
     generate = (\<lambda>request. None), random_for = (\<lambda>tech. first_positions)\<rparr>"

text \<open>A session in the information-gathering phase that has the three required fields.\<close>

definition gathering_session :: session where
  "gathering_session = \<lparr>candidate_data = info_required, conversation_phase = ''InfoGathering'',
     questions = [], current_question_index = 0,
     conversation_history = [(''assistant'', ''What's your email address?''),
       (''user'', ''john@x.com'')]\<rparr>"

text \<open>A session in the information-gathering phase that has all seven fields.\<close>

definition complete_gathering_session :: session where
  "complete_gathering_session = gathering_session\<lparr>candidate_data := info_full\<rparr>"

text \<open>A session in the questioning phase, at question index 1 of 5 questions.\<close>

definition questioning_session :: session where
  "questioning_session = \<lparr>candidate_data = info_full, conversation_phase = ''Questioning'',
     questions = [''Explain closures?'', ''What is the GIL?'', ''How do you profile code?'',
       ''What is a generator?'', ''Why use a context manager?''],
     current_question_index = 1, conversation_history = []\<rparr>"

text \<open>
  A session in the questioning phase as the engine leaves it for two technologies
  (three questions each), at question index 1.
\<close>

definition two_technology_session :: session where
  "two_technology_session = \<lparr>candidate_data = info_full, conversation_phase = ''Questioning'',
     questions = [''How would you shard a Django application?'',
       ''When do Django signals hurt?'', ''How do you profile a slow view?'',
       ''What limits the GIL?'', ''How do you find a memory leak in Python?'',
       ''When would you choose asyncio over threads?''],
     current_question_index = 1,
     conversation_history = [(''assistant'', ''**Question 2:** When do Django signals hurt?'')]\<rparr>"

section \<open>Properties of the candidate profile\<close>

lemma has_key_to_dict:
  "has_key f (to_dict c) = (\<exists>v. (f, Some v) \<in> set (dict c))"
proof -
  have "set (map fst (List.map_filter (\<lambda>(k, v). map_option (Pair k) v) d))
      = {k. \<exists>v. (k, Some v) \<in> set d}" for d :: "(string \<times> pyval option) list"
    by (induction d) (auto split: option.splits)
  then show ?thesis
    by (simp add: has_key_def to_dict_def)
qed

lemma points_bounds: "0 \<le> w \<Longrightarrow> 0 \<le> points w v \<and> points w v \<le> w"
  by (simp add: points_def split: option.splits)

lemma completion_percentage_sum:
  "completion_percentage c =
     points 15 (full_name c) + points 15 (email c) + points 15 (tech_stack c)
     + points 5 (phone c) + points 5 (experience_years c)
     + points 5 (desired_positions c) + points 5 (location c)"
proof -
  have k: "\<And>f. has_key f (to_dict c) = (\<exists>v. (f, Some v) \<in> set (dict c))"
    by (rule has_key_to_dict)
  have r: "int (length (filter (\<lambda>f. has_key f (to_dict c)) required_fields))
      = points 1 (full_name c) + points 1 (email c) + points 1 (tech_stack c)"
    by (simp add: k dict_def required_fields_def points_def split: option.splits)
  have o: "int (length (filter (\<lambda>f. has_key f (to_dict c)) optional_fields))
      = points 1 (phone c) + points 1 (experience_years c)
        + points 1 (desired_positions c) + points 1 (location c)"
    by (simp add: k dict_def optional_fields_def points_def split: option.splits)
  have s: "\<And>v::'b option. points 15 v = 15 * points 1 v"
    "\<And>v::'b option. points 5 v = 5 * points 1 v"
    by (simp_all add: points_def split: option.splits)
  have b: "\<And>v::'b option. 0 \<le> points 1 v \<and> points 1 v \<le> 1"
    by (simp add: points_def split: option.splits)
  show ?thesis
    unfolding completion_percentage_def Let_def r o
    using b [of "full_name c"] b [of "email c"] b [of "tech_stack c"] b [of "phone c"]
      b [of "experience_years c"] b [of "desired_positions c"] b [of "location c"]
    by (simp add: s [of "full_name c"] s [of "email c"] s [of "tech_stack c"]
        s [of "phone c"] s [of "experience_years c"] s [of "location c"]
        s(2) [of "desired_positions c"])
qed

lemma ex_Some_map_option: "(\<exists>v. Some v = map_option g x) = (x \<noteq> None)"
  by (cases x) auto

lemma field_names_iff:
  "''full_name'' \<in> field_names c \<longleftrightarrow> full_name c \<noteq> None"
  "''email'' \<in> field_names c \<longleftrightarrow> email c \<noteq> None"
  "''phone'' \<in> field_names c \<longleftrightarrow> phone c \<noteq> None"
  "''experience_years'' \<in> field_names c \<longleftrightarrow> experience_years c \<noteq> None"
  "''desired_positions'' \<in> field_names c \<longleftrightarrow> desired_positions c \<noteq> None"
  "''location'' \<in> field_names c \<longleftrightarrow> location c \<noteq> None"
  "''tech_stack'' \<in> field_names c \<longleftrightarrow> tech_stack c \<noteq> None"
proof -
  have k: "\<And>f. (f \<in> field_names c) = (\<exists>v. (f, Some v) \<in> set (dict c))"
    using has_key_to_dict [of _ c] by (simp add: field_names_def has_key_def)
  show "''full_name'' \<in> field_names c \<longleftrightarrow> full_name c \<noteq> None"
    "''email'' \<in> field_names c \<longleftrightarrow> email c \<noteq> None"
    "''phone'' \<in> field_names c \<longleftrightarrow> phone c \<noteq> None"
    "''experience_years'' \<in> field_names c \<longleftrightarrow> experience_years c \<noteq> None"
    "''desired_positions'' \<in> field_names c \<longleftrightarrow> desired_positions c \<noteq> None"
    "''location'' \<in> field_names c \<longleftrightarrow> location c \<noteq> None"
    "''tech_stack'' \<in> field_names c \<longleftrightarrow> tech_stack c \<noteq> None"
    unfolding k by (simp_all add: dict_def ex_Some_map_option)
qed

lemma completion_percentage_le_65: "completion_percentage c \<le> 65"
  unfolding completion_percentage_sum
  using points_bounds [of 15 "full_name c"] points_bounds [of 15 "email c"]
    points_bounds [of 15 "tech_stack c"] points_bounds [of 5 "phone c"]
    points_bounds [of 5 "experience_years c"] points_bounds [of 5 "desired_positions c"]
    points_bounds [of 5 "location c"]
  by simp

lemma get_dict:
  "get (dict c) ''full_name'' = map_option PyStr (full_name c)"
  "get (dict c) ''email'' = map_option PyStr (email c)"
  "get (dict c) ''phone'' = map_option PyStr (phone c)"
  "get (dict c) ''experience_years'' = map_option PyStr (experience_years c)"
  "get (dict c) ''desired_positions'' = map_option PyList (desired_positions c)"
  "get (dict c) ''location'' = map_option PyStr (location c)"
  "get (dict c) ''tech_stack'' = map_option PyStr (tech_stack c)"
  by (simp_all add: get_def dict_def split: option.splits)

text \<open>
  Claim C5. The completion percentage does not decrease when fields are added (every
  field set in \<open>c\<close> is set in \<open>c'\<close>), it never exceeds 100, and a profile with
  exactly full_name, email and tech_stack set scores 45: 15 points for each required
  field that is set, 5 for each optional one, capped at 100.
\<close>

theorem completion_percentage_monotone_bounded:
  "(field_names c \<subseteq> field_names c' \<longrightarrow> completion_percentage c \<le> completion_percentage c')
   \<and> completion_percentage c \<le> 100
   \<and> (field_names c = {''full_name'', ''email'', ''tech_stack''} \<longrightarrow> completion_percentage c = 45)
   \<and> completion_percentage c
       = min (15 * int (card (field_names c \<inter> set required_fields))
              + 5 * int (card (field_names c \<inter> set optional_fields))) 100"
proof (intro conjI impI)
  assume sub: "field_names c \<subseteq> field_names c'"
  have m: "f \<in> field_names c \<Longrightarrow> f \<in> field_names c'" for f
    using sub by (rule subsetD)
  have "full_name c \<noteq> None \<Longrightarrow> full_name c' \<noteq> None"
    "email c \<noteq> None \<Longrightarrow> email c' \<noteq> None"
    "tech_stack c \<noteq> None \<Longrightarrow> tech_stack c' \<noteq> None"
    "phone c \<noteq> None \<Longrightarrow> phone c' \<noteq> None"
    "experience_years c \<noteq> None \<Longrightarrow> experience_years c' \<noteq> None"
    "desired_positions c \<noteq> None \<Longrightarrow> desired_positions c' \<noteq> None"
    "location c \<noteq> None \<Longrightarrow> location c' \<noteq> None"
    using m [of "''full_name''"] m [of "''email''"] m [of "''tech_stack''"] m [of "''phone''"]
      m [of "''experience_years''"] m [of "''desired_positions''"] m [of "''location''"]
    unfolding field_names_iff by simp_all
  then have "points 15 (full_name c) \<le> points 15 (full_name c')"
    "points 15 (email c) \<le> points 15 (email c')"
    "points 15 (tech_stack c) \<le> points 15 (tech_stack c')"
    "points 5 (phone c) \<le> points 5 (phone c')"
    "points 5 (experience_years c) \<le> points 5 (experience_years c')"
    "points 5 (desired_positions c) \<le> points 5 (desired_positions c')"
    "points 5 (location c) \<le> points 5 (location c')"
    by (auto simp: points_def split: option.splits)
  then show "completion_percentage c \<le> completion_percentage c'"
    unfolding completion_percentage_sum by linarith
next
  show "completion_percentage c \<le> 100"
    using completion_percentage_le_65 [of c] by simp
next
  assume eq: "field_names c = {''full_name'', ''email'', ''tech_stack''}"
  have "full_name c \<noteq> None" "email c \<noteq> None" "tech_stack c \<noteq> None"
    "\<not> phone c \<noteq> None" "\<not> experience_years c \<noteq> None"
    "\<not> desired_positions c \<noteq> None" "\<not> location c \<noteq> None"
    unfolding field_names_iff [of c, symmetric] eq by simp_all
  then show "completion_percentage c = 45"
    unfolding completion_percentage_sum by (auto simp: points_def)
next
  have k: "\<And>f. has_key f (to_dict c) = (f \<in> field_names c)"
    by (simp add: has_key_def field_names_def)
  have "\<And>fs. distinct fs \<Longrightarrow>
      length (filter (\<lambda>f. f \<in> field_names c) fs) = card (field_names c \<inter> set fs)"
    by (simp add: distinct_length_filter Int_commute)
  then have "length (filter (\<lambda>f. f \<in> field_names c) required_fields)
        = card (field_names c \<inter> set required_fields)"
    "length (filter (\<lambda>f. f \<in> field_names c) optional_fields)
        = card (field_names c \<inter> set optional_fields)"
    by (simp_all add: required_fields_def optional_fields_def)
  then show "completion_percentage c
       = min (15 * int (card (field_names c \<inter> set required_fields))
              + 5 * int (card (field_names c \<inter> set optional_fields))) 100"
    by (simp add: completion_percentage_def Let_def k)
qed

lemma field_names_examples:
  "field_names info_required = {''full_name'', ''email'', ''tech_stack''}"
  "field_names info_with_phone = {''full_name'', ''email'', ''phone'', ''tech_stack''}"
  by (auto simp: field_names_def to_dict_def dict_def info_required_def info_with_phone_def
      empty_info_def List.map_filter_simps)

theorem completion_percentage_monotone_bounded_witness:
  "field_names info_required \<subseteq> field_names info_with_phone
   \<and> completion_percentage info_required \<le> completion_percentage info_with_phone
   \<and> field_names info_required = {''full_name'', ''email'', ''tech_stack''}
   \<and> completion_percentage info_required = 45"
  using completion_percentage_monotone_bounded [of info_required info_with_phone]
  by (simp add: field_names_examples)

text \<open>
  Claim C6. On the empty profile \<open>missing_fields\<close> is [full_name, email, tech_stack];
  once those three hold a (non-empty) value and no optional field does, it is
  [phone, experience_years, desired_positions, location]; and an optional field is
  returned only when all three required fields hold a value.
\<close>

theorem missing_fields_order:
  "missing_fields empty_info = [''full_name'', ''email'', ''tech_stack'']
   \<and> (truthy (get (dict c) ''full_name'') \<and> truthy (get (dict c) ''email'')
        \<and> truthy (get (dict c) ''tech_stack'')
        \<and> phone c = None \<and> experience_years c = None \<and> desired_positions c = None
        \<and> location c = None
      \<longrightarrow> missing_fields c = [''phone'', ''experience_years'', ''desired_positions'', ''location''])
   \<and> (\<forall>f \<in> set optional_fields. f \<in> set (missing_fields c)
      \<longrightarrow> truthy (get (dict c) ''full_name'') \<and> truthy (get (dict c) ''email'')
          \<and> truthy (get (dict c) ''tech_stack''))"
proof -
  have e: "missing_fields empty_info = [''full_name'', ''email'', ''tech_stack'']"
    by (simp add: missing_fields_def get_dict required_fields_def empty_info_def)
  have o: "missing_fields c = [''phone'', ''experience_years'', ''desired_positions'', ''location'']"
    if "truthy (get (dict c) ''full_name'') \<and> truthy (get (dict c) ''email'')
        \<and> truthy (get (dict c) ''tech_stack'')
        \<and> phone c = None \<and> experience_years c = None \<and> desired_positions c = None
        \<and> location c = None"
    using that
    by (simp add: missing_fields_def get_dict required_fields_def optional_fields_def)
  have r: "truthy (get (dict c) ''full_name'') \<and> truthy (get (dict c) ''email'')
          \<and> truthy (get (dict c) ''tech_stack'')"
    if f: "f \<in> set optional_fields" and m: "f \<in> set (missing_fields c)" for f
  proof -
    have "f \<notin> set required_fields"
      using f by (auto simp: optional_fields_def required_fields_def)
    then have "filter (\<lambda>field. \<not> truthy (get (dict c) field)) required_fields = []"
      using m by (auto simp: missing_fields_def Let_def split: if_splits)
    then show ?thesis
      by (simp add: required_fields_def split: if_splits)
  qed
  show ?thesis
    using e o r by blast
qed

theorem missing_fields_order_witness:
  "truthy (get (dict info_required) ''full_name'') \<and> truthy (get (dict info_required) ''email'')
   \<and> truthy (get (dict info_required) ''tech_stack'')
   \<and> phone info_required = None \<and> experience_years info_required = None
   \<and> desired_positions info_required = None \<and> location info_required = None
   \<and> missing_fields info_required
       = [''phone'', ''experience_years'', ''desired_positions'', ''location'']
   \<and> ''phone'' \<in> set optional_fields \<and> ''phone'' \<in> set (missing_fields info_required)"
  using missing_fields_order [of info_required]
  by (simp add: get_dict info_required_def empty_info_def optional_fields_def)

text \<open>
  Claim C10. The completion percentage is at most 65 for every profile (3 required
  fields at 15 points and 4 optional ones at 5), so the cap of 100 is never reached: a
  profile with all seven fields set scores 65.
\<close>

theorem completion_percentage_at_most_65:
  "completion_percentage c \<le> 65 \<and> completion_percentage c \<noteq> 100
   \<and> (full_name c \<noteq> None \<and> email c \<noteq> None \<and> phone c \<noteq> None
        \<and> experience_years c \<noteq> None \<and> desired_positions c \<noteq> None
        \<and> location c \<noteq> None \<and> tech_stack c \<noteq> None
      \<longrightarrow> completion_percentage c = 65)"
proof (intro conjI impI)
  show le: "completion_percentage c \<le> 65"
    by (rule completion_percentage_le_65)
  then show "completion_percentage c \<noteq> 100"
    by simp
next
  assume "full_name c \<noteq> None \<and> email c \<noteq> None \<and> phone c \<noteq> None
        \<and> experience_years c \<noteq> None \<and> desired_positions c \<noteq> None
        \<and> location c \<noteq> None \<and> tech_stack c \<noteq> None"
  then show "completion_percentage c = 65"
    unfolding completion_percentage_sum by (auto simp: points_def)
qed

theorem completion_percentage_at_most_65_witness:
  "full_name info_full \<noteq> None \<and> email info_full \<noteq> None \<and> phone info_full \<noteq> None
   \<and> experience_years info_full \<noteq> None \<and> desired_positions info_full \<noteq> None
   \<and> location info_full \<noteq> None \<and> tech_stack info_full \<noteq> None
   \<and> completion_percentage info_full = 65"
  using completion_percentage_at_most_65 [of info_full]
  by (simp add: info_full_def)

section \<open>Properties of the exit-intent detector\<close>

text \<open>
  Claim C7. "bye", "quit", "STOP" and "I need to exit interview now" are classified as
  exit intent; "I am quite bored" and "byebye" are not: a keyword matches only where
  a word ends after it.
\<close>

theorem check_exit_intent_examples:
  "check_exit_intent ''bye'' \<and> check_exit_intent ''quit'' \<and> check_exit_intent ''STOP''
   \<and> check_exit_intent ''I need to exit interview now''
   \<and> \<not> check_exit_intent ''I am quite bored'' \<and> \<not> check_exit_intent ''byebye''"
  by code_simp

section \<open>Properties of the technology parser\<close>

lemma parse_python_react_c:
  "parse ''Python, react, C'' =
     [(''languages'', [''python'', ''c'']), (''frontend'', [''react'', ''c'']),
      (''databases'', [''c'']), (''devops'', [''c'']), (''tools'', [''c''])]"
  by code_simp

lemma parse_cpp: "parse ''c++'' = [(''languages'', [''c++''])]"
  by code_simp

text \<open>
  Claim C9 (the code differs from it). \<open>parse\<close> of "Python, react, C" puts "python"
  and "c" under languages and "react" under frontend, and \<open>parse\<close> of "c++" keeps the
  token "c++" under languages. But the token "c" is also put under frontend,
  databases, devops and tools: the exact comparison is made for keywords of at most
  two characters only, and the one-character token occurs in longer keywords such as
  "react", "css", "oracle", "docker" and "confluence".
\<close>

theorem parse_single_character_token:
  "tokens_of (parse ''Python, react, C'') ''languages'' = {''python'', ''c''}
   \<and> tokens_of (parse ''Python, react, C'') ''frontend'' = {''react'', ''c''}
   \<and> tokens_of (parse ''Python, react, C'') ''databases'' = {''c''}
   \<and> tokens_of (parse ''Python, react, C'') ''devops'' = {''c''}
   \<and> tokens_of (parse ''Python, react, C'') ''tools'' = {''c''}
   \<and> keyword_matches ''c'' ''react'' \<and> keyword_matches ''c'' ''docker''
   \<and> \<not> keyword_matches ''css'' ''c''
   \<and> parse ''c++'' = [(''languages'', [''c++''])]"
proof -
  have k: "keyword_matches ''c'' ''react''" "keyword_matches ''c'' ''docker''"
    "\<not> keyword_matches ''css'' ''c''"
    by (simp_all add: keyword_matches_def)
  show ?thesis
    unfolding parse_python_react_c parse_cpp
    using k by (simp add: tokens_of_def insert_commute)
qed

section \<open>Properties of the fallback questions\<close>

lemma fallback_map_ok: "list_all (\<lambda>(key, q_data). entry_ok q_data) fallback_map"
  by code_simp

lemma resolve_ok:
  assumes "entry_ok e"
  shows "\<exists>tiers. resolve e = Inr (Some tiers) \<and> tiers_ok tiers"
proof (cases e)
  case (Alias a)
  with assms show ?thesis
    by (auto split: option.splits pool_entry.splits)
next
  case (Tiers tiers)
  with assms show ?thesis by simp
qed

lemma tiers_lookup_ok:
  assumes "tiers_ok tiers" and "map_of tiers d = Some pool"
  shows "pool_ok pool"
proof -
  have "(d, pool) \<in> set tiers"
    using assms(2) by (rule map_of_SomeD)
  then show ?thesis
    using assms(1) by (auto simp: tiers_ok_def list_all_iff)
qed

lemma select_pool_ok:
  assumes "tiers_ok tiers"
  shows "\<exists>pool. select_pool tiers d = Inr pool \<and> pool_ok pool"
proof (cases "map_of tiers d")
  case (Some pool)
  then show ?thesis
    using tiers_lookup_ok [OF assms Some] by (simp add: select_pool_def)
next
  case None
  obtain tier first_pool rest where t: "tiers = (tier, first_pool) # rest"
    using assms by (cases tiers) (auto simp: tiers_ok_def)
  have f: "pool_ok first_pool"
    using assms t by (simp add: tiers_ok_def)
  show ?thesis
  proof (cases "map_of tiers ''any''")
    case (Some pool)
    then show ?thesis
      using None t tiers_lookup_ok [OF assms Some] by (simp add: select_pool_def)
  next
    case any: None
    show ?thesis
    proof (cases "map_of tiers ''intermediate''")
      case (Some pool)
      then show ?thesis
        using None any t tiers_lookup_ok [OF assms Some] by (simp add: select_pool_def)
    next
      case inter: None
      show ?thesis
        using None any inter t f by (simp add: select_pool_def)
    qed
  qed
qed

lemma random_sample_ok:
  assumes v: "valid_random rs" and p: "pool_ok pool"
  shows "length (random_sample rs pool (min 3 (length pool))) = 3
         \<and> (\<forall>q \<in> set (random_sample rs pool (min 3 (length pool))). q \<noteq> [])"
proof -
  have k: "min 3 (length pool) = 3" "3 \<le> length pool"
    using p by (simp_all add: pool_ok_def)
  have s: "length (sample_indices rs (length pool) 3) = 3"
    "set (sample_indices rs (length pool) 3) \<subseteq> {..<length pool}"
    using v k(2) by (simp_all add: valid_random_def)
  have "pool ! i \<noteq> []" if "i \<in> set (sample_indices rs (length pool) 3)" for i
  proof -
    have "i < length pool" using that s(2) by auto
    then have "pool ! i \<in> set pool" by simp
    then show ?thesis using p by (auto simp: pool_ok_def list_all_iff)
  qed
  then show ?thesis
    using s(1) by (auto simp: random_sample_def k(1))
qed

lemma first_match_ok:
  assumes v: "valid_random rs"
  shows "list_all (\<lambda>(key, q_data). entry_ok q_data) items
         \<Longrightarrow> first_match rs items l d = Some r
         \<Longrightarrow> \<exists>qs. r = Inr qs \<and> length qs = 3 \<and> (\<forall>q \<in> set qs. q \<noteq> [])"
proof (induction items)
  case Nil
  then show ?case by simp
next
  case (Cons item items)
  obtain key q_data where i: "item = (key, q_data)"
    by (cases item)
  have e: "entry_ok q_data" and rest: "list_all (\<lambda>(key, q_data). entry_ok q_data) items"
    using Cons.prems(1) i by simp_all
  show ?case
  proof (cases "contains key l")
    case False
    then have "first_match rs items l d = Some r"
      using Cons.prems(2) i by simp
    then show ?thesis
      using Cons.IH rest by blast
  next
    case True
    obtain tiers where t: "resolve q_data = Inr (Some tiers)" "tiers_ok tiers"
      using resolve_ok [OF e] by blast
    obtain pool where p: "select_pool tiers d = Inr pool" "pool_ok pool"
      using select_pool_ok [OF t(2)] by blast
    have "r = Inr (random_sample rs pool (min 3 (length pool)))"
      using Cons.prems(2) i True t(1) p(1) by simp
    then show ?thesis
      using random_sample_ok [OF v p(2)] by blast
  qed
qed

lemma defaults_ok: "length (defaults tech) = 7 \<and> (\<forall>q \<in> set (defaults tech). q \<noteq> [])"
  by (simp add: defaults_def)

lemma shuffled_defaults_ok:
  assumes v: "valid_random rs"
  shows "length (take 3 (random_shuffle rs (defaults tech))) = 3
         \<and> (\<forall>q \<in> set (take 3 (random_shuffle rs (defaults tech))). q \<noteq> [])"
proof -
  have l: "length (shuffle_order rs 7) = 7" and s: "set (shuffle_order rs 7) = {..<7}"
    using v by (simp_all add: valid_random_def)
  have n: "defaults tech ! i \<noteq> []" if "i \<in> set (shuffle_order rs 7)" for i
  proof -
    have "i < length (defaults tech)"
      using that s defaults_ok [of tech] by simp
    then have "defaults tech ! i \<in> set (defaults tech)"
      by (rule nth_mem)
    then show ?thesis
      using defaults_ok [of tech] by blast
  qed
  have len: "length (random_shuffle rs (defaults tech)) = 7"
    using l defaults_ok [of tech] by (simp add: random_shuffle_def)
  have "q \<noteq> []" if "q \<in> set (random_shuffle rs (defaults tech))" for q
    using that n defaults_ok [of tech] by (auto simp: random_shuffle_def)
  then have "\<forall>q \<in> set (take 3 (random_shuffle rs (defaults tech))). q \<noteq> []"
    using set_take_subset [of 3 "random_shuffle rs (defaults tech)"] by blast
  then show ?thesis
    using len by simp
qed

lemma valid_first_positions: "valid_random first_positions"
  by (auto simp: valid_random_def first_positions_def)


lemma fallback_questions_ok:
  assumes "valid_random rs"
  shows "\<exists>qs. get_enhanced_fallback_questions rs tech difficulty = Inr qs
              \<and> length qs = 3 \<and> (\<forall>q \<in> set qs. q \<noteq> [])"
proof (cases "first_match rs fallback_map (lower tech) difficulty")
  case None
  then show ?thesis
    using shuffled_defaults_ok [OF assms, of tech]
    by (simp add: get_enhanced_fallback_questions_def)
next
  case (Some r)
  then show ?thesis
    using first_match_ok [OF assms fallback_map_ok Some]
    by (simp add: get_enhanced_fallback_questions_def)
qed




section \<open>Properties of the difficulty tier\<close>

lemma pow2_positive: "0 < pow2 k"
  by (simp add: pow2_def)

lemma float_less_2_5: "float_less years 2 \<Longrightarrow> float_less years 5"
proof (cases years)
  case (Finite m e)
  assume l: "float_less years 2"
  show ?thesis
  proof (cases "0 \<le> e")
    case True
    then show ?thesis using l Finite by simp
  next
    case False
    have "2 * pow2 (- e) \<le> 5 * pow2 (- e)"
      using pow2_positive [of "- e"] by simp
    then show ?thesis using l Finite False by simp
  qed
qed simp_all

lemma py_float_examples:
  "py_float ''mid-level'' = None"
  "py_float ''1'' = Some (Finite 4503599627370496 (- 52))"
  "py_float ''3'' = Some (Finite 6755399441055744 (- 51))"
  "py_float ''7'' = Some (Finite 7881299347898368 (- 50))"
  "py_float ''nan'' = Some NaN"
  by code_simp+

text \<open>
  Claim C2, as amended. With \<open>years\<close> the value \<^verbatim>\<open>float(experience)\<close>:
  \<open>years < 2\<close> gives "beginner", \<open>2 \<le> years < 5\<close> gives "intermediate", anything
  else that parses (5 or more, and not-a-number) gives "advanced"; a non-empty string
  that does not parse gives "intermediate"; and an absent experience (\<^verbatim>\<open>None\<close> or the
  empty string) counts as 0 years and gives "beginner".
\<close>

theorem get_difficulty_level_tiers:
  "(experience = None \<or> experience = Some [] \<longrightarrow>
      get_difficulty_level tech experience = ''beginner'')
   \<and> (s \<noteq> [] \<and> py_float s = None \<longrightarrow> get_difficulty_level tech (Some s) = ''intermediate'')
   \<and> (s \<noteq> [] \<and> py_float s = Some years \<and> float_less years 2 \<longrightarrow>
      get_difficulty_level tech (Some s) = ''beginner'')
   \<and> (s \<noteq> [] \<and> py_float s = Some years \<and> \<not> float_less years 2 \<and> float_less years 5 \<longrightarrow>
      get_difficulty_level tech (Some s) = ''intermediate'')
   \<and> (s \<noteq> [] \<and> py_float s = Some years \<and> \<not> float_less years 5 \<longrightarrow>
      get_difficulty_level tech (Some s) = ''advanced'')"
proof -
  have absent: "get_difficulty_level tech experience = ''beginner''"
    if "experience = None \<or> experience = Some []"
    using that by (auto simp: get_difficulty_level_def years_of_def)
  have unparsable: "get_difficulty_level tech (Some s) = ''intermediate''"
    if "s \<noteq> [] \<and> py_float s = None"
    using that by (simp add: get_difficulty_level_def years_of_def)
  have parsed: "get_difficulty_level tech (Some s) =
      (if float_less years 2 then ''beginner''
       else if float_less years 5 then ''intermediate'' else ''advanced'')"
    if "s \<noteq> [] \<and> py_float s = Some years"
    using that by (simp add: get_difficulty_level_def years_of_def)
  have not2: "\<not> float_less years 5 \<Longrightarrow> \<not> float_less years 2"
    using float_less_2_5 by blast
  show ?thesis
    using absent unparsable parsed not2 by simp
qed

theorem get_difficulty_level_tiers_witness:
  "get_difficulty_level ''python'' None = ''beginner''
   \<and> get_difficulty_level ''python'' (Some []) = ''beginner''
   \<and> ''mid-level'' \<noteq> [] \<and> py_float ''mid-level'' = None
   \<and> get_difficulty_level ''python'' (Some ''mid-level'') = ''intermediate''
   \<and> py_float ''1'' = Some (Finite 4503599627370496 (- 52))
   \<and> float_less (Finite 4503599627370496 (- 52)) 2
   \<and> get_difficulty_level ''python'' (Some ''1'') = ''beginner''
   \<and> py_float ''3'' = Some (Finite 6755399441055744 (- 51))
   \<and> \<not> float_less (Finite 6755399441055744 (- 51)) 2
   \<and> float_less (Finite 6755399441055744 (- 51)) 5
   \<and> get_difficulty_level ''python'' (Some ''3'') = ''intermediate''
   \<and> py_float ''7'' = Some (Finite 7881299347898368 (- 50))
   \<and> \<not> float_less (Finite 7881299347898368 (- 50)) 5
   \<and> get_difficulty_level ''python'' (Some ''7'') = ''advanced''
   \<and> py_float ''nan'' = Some NaN \<and> \<not> float_less NaN 5
   \<and> get_difficulty_level ''python'' (Some ''nan'') = ''advanced''"
  using get_difficulty_level_tiers [of None "''python''" "''mid-level''" NaN]
    get_difficulty_level_tiers [of "Some []" "''python''" "''1''" "Finite 4503599627370496 (- 52)"]
    get_difficulty_level_tiers [of None "''python''" "''3''" "Finite 6755399441055744 (- 51)"]
    get_difficulty_level_tiers [of None "''python''" "''7''" "Finite 7881299347898368 (- 50)"]
    get_difficulty_level_tiers [of None "''python''" "''nan''" NaN]
  by (simp add: py_float_examples pow2_def)

text \<open>
  Claim C2 as stated fails for an absent experience: \<^verbatim>\<open>None\<close> and the empty string
  give "beginner", not "intermediate".
\<close>

theorem get_difficulty_level_absent_counterexample:
  "get_difficulty_level ''python'' None \<noteq> ''intermediate''
   \<and> get_difficulty_level ''python'' (Some []) \<noteq> ''intermediate''"
  by (simp add: get_difficulty_level_def years_of_def)

section \<open>Properties of the conversation engine\<close>

lemma is_complete_iff:
  "is_complete c \<longleftrightarrow>
     truthy (get (dict c) ''full_name'') \<and> truthy (get (dict c) ''email'')
     \<and> truthy (get (dict c) ''phone'') \<and> truthy (get (dict c) ''experience_years'')
     \<and> truthy (get (dict c) ''desired_positions'') \<and> truthy (get (dict c) ''location'')
     \<and> truthy (get (dict c) ''tech_stack'')"
  by (simp add: is_complete_def Let_def)

lemma questions_for_ok:
  assumes "valid_random (random_for w tech)"
  shows "\<exists>qs. questions_for w experience tech = Inr qs \<and> length qs = 3"
proof -
  obtain fqs where f: "get_enhanced_fallback_questions (random_for w tech) tech
      (get_difficulty_level tech (Some experience)) = Inr fqs" "length fqs = 3"
    using fallback_questions_ok [OF assms] by blast
  show ?thesis
  proof (cases "generate w (QuestionRequest tech experience)")
    case None
    then show ?thesis using f by (simp add: questions_for_def)
  next
    case (Some response)
    show ?thesis
    proof (cases "length (parse_questions response) < 3")
      case True
      then show ?thesis using Some f by (simp add: questions_for_def)
    next
      case False
      then show ?thesis using Some by (simp add: questions_for_def)
    qed
  qed
qed

lemma questions_for_all_ok:
  assumes "\<forall>tech. valid_random (random_for w tech)"
  shows "\<exists>qs. questions_for_all w experience techs = Inr qs \<and> length qs = 3 * length techs"
proof (induction techs)
  case Nil
  show ?case by simp
next
  case (Cons tech techs)
  obtain qs where q: "questions_for w experience tech = Inr qs" "length qs = 3"
    using questions_for_ok assms by blast
  obtain rest where r: "questions_for_all w experience techs = Inr rest"
    "length rest = 3 * length techs"
    using Cons.IH by blast
  show ?case using q r by simp
qed

lemma final_questions_ok:
  assumes v: "\<forall>tech. valid_random (random_for w tech)"
  shows "\<exists>qs. final_questions w tech_stack_str experience = Inr qs \<and> qs \<noteq> []"
proof -
  obtain generated where g:
    "questions_for_all w experience (technologies tech_stack_str) = Inr generated"
    using questions_for_all_ok [OF v] by blast
  obtain fqs where f: "get_enhanced_fallback_questions (random_for w tech_stack_str)
      tech_stack_str ''intermediate'' = Inr fqs" "length fqs = 3"
    using fallback_questions_ok v by blast
  show ?thesis
  proof (cases "generated = []")
    case True
    have "fqs \<noteq> []" using f(2) by auto
    then show ?thesis using g f(1) True by (simp add: final_questions_def)
  next
    case False
    then show ?thesis using g by (simp add: final_questions_def)
  qed
qed

lemma generate_technical_questions_ok:
  assumes v: "\<forall>tech. valid_random (random_for w tech)"
  shows "\<exists>qs. generate_technical_questions w data
           = Inr (technical_intro (or_default (tech_stack data) ''various technologies'')
                    (length qs) (hd qs), qs)
         \<and> qs \<noteq> []"
proof -
  obtain qs where q: "final_questions w (or_default (tech_stack data) ''various technologies'')
      (or_default (experience_years data) ''mid-level'') = Inr qs" "qs \<noteq> []"
    using final_questions_ok [OF v] by blast
  obtain q rest where qr: "qs = q # rest"
    using q(2) by (cases qs) auto
  have "generate_technical_questions w data
      = Inr (technical_intro (or_default (tech_stack data) ''various technologies'') (length qs) q, qs)"
    using q(1) qr by (simp add: generate_technical_questions_def Let_def)
  then show ?thesis using q(2) qr by auto
qed

lemma missing_fields_empty_iff: "(missing_fields c = []) = is_complete c"
proof -
  have r: "(filter (\<lambda>field. \<not> truthy (get (dict c) field)) required_fields = []) =
      (truthy (get (dict c) ''full_name'') \<and> truthy (get (dict c) ''email'')
       \<and> truthy (get (dict c) ''tech_stack''))"
    by (simp add: required_fields_def filter_empty_conv)
  have o: "(filter (\<lambda>field. \<not> truthy (get (dict c) field)) optional_fields = []) =
      (truthy (get (dict c) ''phone'') \<and> truthy (get (dict c) ''experience_years'')
       \<and> truthy (get (dict c) ''desired_positions'') \<and> truthy (get (dict c) ''location''))"
    by (simp add: optional_fields_def filter_empty_conv)
  show ?thesis
  proof (cases "filter (\<lambda>field. \<not> truthy (get (dict c) field)) required_fields = []")
    case True
    then have m: "missing_fields c = filter (\<lambda>field. \<not> truthy (get (dict c) field)) optional_fields"
      by (simp add: missing_fields_def Let_def)
    show ?thesis
      using True unfolding m o r is_complete_iff by blast
  next
    case False
    then have "missing_fields c \<noteq> []"
      by (simp add: missing_fields_def Let_def)
    then show ?thesis
      using False unfolding is_complete_iff r by blast
  qed
qed

lemma missing_fields_known:
  "set (missing_fields c) \<subseteq> set required_fields \<union> set optional_fields"
  by (auto simp: missing_fields_def Let_def)

lemma phase_questions_all:
  "list_all (\<lambda>f. map_of phase_questions f \<noteq> None) (required_fields @ optional_fields)"
  by code_simp

lemma phase_questions_known:
  assumes "f \<in> set required_fields \<union> set optional_fields"
  shows "\<exists>question. map_of phase_questions f = Some question"
proof -
  have m: "f \<in> set (required_fields @ optional_fields)"
    using assms by simp
  have "\<forall>g \<in> set (required_fields @ optional_fields). map_of phase_questions g \<noteq> None"
    using phase_questions_all unfolding list_all_iff .
  then have "map_of phase_questions f \<noteq> None"
    using m by (rule bspec)
  then show ?thesis by blast
qed

lemma get_next_question_asks:
  assumes "\<not> is_complete c"
  shows "missing_fields c \<noteq> []
         \<and> map_of phase_questions (hd (missing_fields c)) = Some (get_next_question c)"
proof -
  have n: "missing_fields c \<noteq> []"
    using assms missing_fields_empty_iff by blast
  then obtain f rest where m: "missing_fields c = f # rest"
    by (cases "missing_fields c") auto
  have "f \<in> set required_fields \<union> set optional_fields"
    using missing_fields_known [of c] m by auto
  then obtain question where q: "map_of phase_questions f = Some question"
    using phase_questions_known by blast
  have "get_next_question c = question"
    using m q by (simp add: get_next_question_def)
  then show ?thesis
    using n m q by simp
qed

lemma process_message_exit:
  assumes "check_exit_intent user_input"
  shows "process_message w s user_input =
     Inr (early_conclusion (candidate_data s),
          s\<lparr>conversation_history := conversation_history s @ [(''user'', user_input)]\<rparr>)"
  using assms by (simp add: process_message_def get_conclusion_def Let_def)

lemma route_info_gathering:
  assumes v: "\<forall>tech. valid_random (random_for w tech)"
    and p: "conversation_phase s = ''InfoGathering''"
  shows "if is_complete (candidate_data s)
         then \<exists>qs. qs \<noteq> []
                \<and> route w s =
                    Inr (technical_intro
                           (or_default (tech_stack (candidate_data s)) ''various technologies'')
                           (length qs) (hd qs),
                         s\<lparr>conversation_phase := ''Questioning'', questions := qs,
                            current_question_index := 0\<rparr>)
         else route w s = Inr (get_next_question (candidate_data s), s)"
proof (cases "is_complete (candidate_data s)")
  case True
  obtain qs where "generate_technical_questions w (candidate_data s)
      = Inr (technical_intro (or_default (tech_stack (candidate_data s)) ''various technologies'')
               (length qs) (hd qs), qs)" "qs \<noteq> []"
    using generate_technical_questions_ok [OF v] by blast
  then show ?thesis
    using p True by (auto simp: route_def)
next
  case False
  then show ?thesis
    using p by (simp add: route_def)
qed

text \<open>
  Claim C1, as amended. A message without exit intent that is processed in the
  InfoGathering phase moves the session to Questioning exactly when, after the
  extraction, all seven profile fields (full_name, email, phone, experience_years,
  desired_positions, location, tech_stack) hold a non-empty value; the response is
  then the introduction with question 1 of a non-empty question list, and the
  question index is 0. Otherwise the session stays in InfoGathering, some field is
  missing, and the response is the question for the first missing field; question
  list and index are as before. In both cases the user message and the response are
  appended to the history.
\<close>

theorem info_gathering_transition:
  assumes "\<forall>tech. valid_random (random_for w tech)"
    and "\<not> check_exit_intent user_input"
    and "conversation_phase s = ''InfoGathering''"
  shows "\<exists>response s'. process_message w s user_input = Inr (response, s')
           \<and> candidate_data s' = extract_info w ''InfoGathering'' (candidate_data s) user_input
           \<and> (conversation_phase s' = ''Questioning'' \<or> conversation_phase s' = ''InfoGathering'')
           \<and> (conversation_phase s' = ''Questioning'' \<longleftrightarrow>
                truthy (get (dict (candidate_data s')) ''full_name'')
                \<and> truthy (get (dict (candidate_data s')) ''email'')
                \<and> truthy (get (dict (candidate_data s')) ''phone'')
                \<and> truthy (get (dict (candidate_data s')) ''experience_years'')
                \<and> truthy (get (dict (candidate_data s')) ''desired_positions'')
                \<and> truthy (get (dict (candidate_data s')) ''location'')
                \<and> truthy (get (dict (candidate_data s')) ''tech_stack''))
           \<and> conversation_history s'
               = conversation_history s @ [(''user'', user_input), (''assistant'', response)]
           \<and> (conversation_phase s' = ''InfoGathering'' \<longrightarrow>
                missing_fields (candidate_data s') \<noteq> []
                \<and> map_of phase_questions (hd (missing_fields (candidate_data s'))) = Some response
                \<and> response = get_next_question (candidate_data s')
                \<and> questions s' = questions s
                \<and> current_question_index s' = current_question_index s)
           \<and> (conversation_phase s' = ''Questioning'' \<longrightarrow>
                questions s' \<noteq> [] \<and> current_question_index s' = 0
                \<and> response = technical_intro
                     (or_default (tech_stack (candidate_data s')) ''various technologies'')
                     (length (questions s')) (hd (questions s')))"
proof -
  define c' where "c' = extract_info w ''InfoGathering'' (candidate_data s) user_input"
  define s2 where "s2 = s\<lparr>conversation_history := conversation_history s @ [(''user'', user_input)],
      candidate_data := c'\<rparr>"
  have p2: "conversation_phase s2 = ''InfoGathering''"
    using assms(3) by (simp add: s2_def)
  have c2: "candidate_data s2 = c'"
    by (simp add: s2_def)
  have pm: "process_message w s user_input =
      (case route w s2 of
         Inl e \<Rightarrow> Inl e
       | Inr (response, s3) \<Rightarrow>
           Inr (response, s3\<lparr>conversation_history :=
                  conversation_history s3 @ [(''assistant'', response)]\<rparr>))"
    using assms(2,3) by (simp add: process_message_def Let_def s2_def c'_def)
  note r = route_info_gathering [OF assms(1) p2, unfolded c2]
  have str: "''InfoGathering'' \<noteq> ''Questioning''"
    by simp
  show ?thesis
  proof (cases "is_complete c'")
    case True
    obtain qs where q: "qs \<noteq> []"
      "route w s2 = Inr (technical_intro (or_default (tech_stack c') ''various technologies'')
                           (length qs) (hd qs),
                         s2\<lparr>conversation_phase := ''Questioning'', questions := qs,
                            current_question_index := 0\<rparr>)"
      using r True by auto
    define response where "response = technical_intro
        (or_default (tech_stack c') ''various technologies'') (length qs) (hd qs)"
    define s' where "s' = s2\<lparr>conversation_phase := ''Questioning'', questions := qs,
        current_question_index := 0,
        conversation_history := conversation_history s2 @ [(''assistant'', response)]\<rparr>"
    have e: "process_message w s user_input = Inr (response, s')"
      unfolding pm q(2) by (simp add: response_def s'_def)
    have f: "candidate_data s' = c'" "conversation_phase s' = ''Questioning''"
      "questions s' = qs" "current_question_index s' = 0"
      "conversation_history s'
        = conversation_history s @ [(''user'', user_input), (''assistant'', response)]"
      by (simp_all add: s'_def s2_def)
    have t: "truthy (get (dict c') ''full_name'') \<and> truthy (get (dict c') ''email'')
        \<and> truthy (get (dict c') ''phone'') \<and> truthy (get (dict c') ''experience_years'')
        \<and> truthy (get (dict c') ''desired_positions'') \<and> truthy (get (dict c') ''location'')
        \<and> truthy (get (dict c') ''tech_stack'')"
      using True unfolding is_complete_iff .
    have "process_message w s user_input = Inr (response, s')
           \<and> candidate_data s' = c'
           \<and> (conversation_phase s' = ''Questioning'' \<or> conversation_phase s' = ''InfoGathering'')
           \<and> (conversation_phase s' = ''Questioning'' \<longleftrightarrow>
                truthy (get (dict (candidate_data s')) ''full_name'')
                \<and> truthy (get (dict (candidate_data s')) ''email'')
                \<and> truthy (get (dict (candidate_data s')) ''phone'')
                \<and> truthy (get (dict (candidate_data s')) ''experience_years'')
                \<and> truthy (get (dict (candidate_data s')) ''desired_positions'')
                \<and> truthy (get (dict (candidate_data s')) ''location'')
                \<and> truthy (get (dict (candidate_data s')) ''tech_stack''))
           \<and> conversation_history s'
               = conversation_history s @ [(''user'', user_input), (''assistant'', response)]
           \<and> (conversation_phase s' = ''InfoGathering'' \<longrightarrow>
                missing_fields (candidate_data s') \<noteq> []
                \<and> map_of phase_questions (hd (missing_fields (candidate_data s'))) = Some response
                \<and> response = get_next_question (candidate_data s')
                \<and> questions s' = questions s
                \<and> current_question_index s' = current_question_index s)
           \<and> (conversation_phase s' = ''Questioning'' \<longrightarrow>
                questions s' \<noteq> [] \<and> current_question_index s' = 0
                \<and> response = technical_intro
                     (or_default (tech_stack (candidate_data s')) ''various technologies'')
                     (length (questions s')) (hd (questions s')))"
      unfolding f using e t q(1) by (simp add: response_def)
    then show ?thesis
      unfolding c'_def by blast
  next
    case False
    have q: "route w s2 = Inr (get_next_question c', s2)"
      using r False by simp
    define response where "response = get_next_question c'"
    define s' where "s' = s2\<lparr>conversation_history :=
        conversation_history s2 @ [(''assistant'', response)]\<rparr>"
    have e: "process_message w s user_input = Inr (response, s')"
      unfolding pm q by (simp add: response_def s'_def)
    have f: "candidate_data s' = c'" "conversation_phase s' = ''InfoGathering''"
      "questions s' = questions s" "current_question_index s' = current_question_index s"
      "conversation_history s'
        = conversation_history s @ [(''user'', user_input), (''assistant'', response)]"
      using assms(3) by (simp_all add: s'_def s2_def)
    have t: "\<not> (truthy (get (dict c') ''full_name'') \<and> truthy (get (dict c') ''email'')
        \<and> truthy (get (dict c') ''phone'') \<and> truthy (get (dict c') ''experience_years'')
        \<and> truthy (get (dict c') ''desired_positions'') \<and> truthy (get (dict c') ''location'')
        \<and> truthy (get (dict c') ''tech_stack''))"
      using False unfolding is_complete_iff .
    have a: "missing_fields c' \<noteq> []"
      "map_of phase_questions (hd (missing_fields c')) = Some response"
      using get_next_question_asks [OF False] by (simp_all add: response_def)
    have "process_message w s user_input = Inr (response, s')
           \<and> candidate_data s' = c'
           \<and> (conversation_phase s' = ''Questioning'' \<or> conversation_phase s' = ''InfoGathering'')
           \<and> (conversation_phase s' = ''Questioning'' \<longleftrightarrow>
                truthy (get (dict (candidate_data s')) ''full_name'')
                \<and> truthy (get (dict (candidate_data s')) ''email'')
                \<and> truthy (get (dict (candidate_data s')) ''phone'')
                \<and> truthy (get (dict (candidate_data s')) ''experience_years'')
                \<and> truthy (get (dict (candidate_data s')) ''desired_positions'')
                \<and> truthy (get (dict (candidate_data s')) ''location'')
                \<and> truthy (get (dict (candidate_data s')) ''tech_stack''))
           \<and> conversation_history s'
               = conversation_history s @ [(''user'', user_input), (''assistant'', response)]
           \<and> (conversation_phase s' = ''InfoGathering'' \<longrightarrow>
                missing_fields (candidate_data s') \<noteq> []
                \<and> map_of phase_questions (hd (missing_fields (candidate_data s'))) = Some response
                \<and> response = get_next_question (candidate_data s')
                \<and> questions s' = questions s
                \<and> current_question_index s' = current_question_index s)
           \<and> (conversation_phase s' = ''Questioning'' \<longrightarrow>
                questions s' \<noteq> [] \<and> current_question_index s' = 0
                \<and> response = technical_intro
                     (or_default (tech_stack (candidate_data s')) ''various technologies'')
                     (length (questions s')) (hd (questions s')))"
      unfolding f using e t a str by (simp add: response_def)
    then show ?thesis
      unfolding c'_def by blast
  qed
qed

lemma quiet_world_random: "\<forall>tech. valid_random (random_for quiet_world tech)"
  by (simp add: quiet_world_def valid_first_positions)

lemma no_exit_intent_example: "\<not> check_exit_intent ''I would rather not say''"
  by code_simp

lemma process_message_gathering_example:
  "process_message quiet_world gathering_session ''I would rather not say'' =
     Inr (''And your phone number?'',
          gathering_session\<lparr>conversation_history := conversation_history gathering_session
             @ [(''user'', ''I would rather not say''), (''assistant'', ''And your phone number?'')]\<rparr>)"
proof -
  have m: "missing_fields info_required
      = [''phone'', ''experience_years'', ''desired_positions'', ''location'']"
    by (simp add: missing_fields_def get_dict required_fields_def optional_fields_def
        info_required_def empty_info_def)
  have c: "\<not> is_complete info_required"
    by (simp add: is_complete_iff get_dict info_required_def empty_info_def)
  have q: "get_next_question info_required = ''And your phone number?''"
    by (simp add: get_next_question_def m phase_questions_def)
  have r: "route quiet_world s = Inr (''And your phone number?'', s)"
    if "candidate_data s = info_required" "conversation_phase s = ''InfoGathering''" for s
    using that by (simp add: route_def c q)
  have g: "candidate_data gathering_session = info_required"
    "conversation_phase gathering_session = ''InfoGathering''"
    by (simp_all add: gathering_session_def)
  have e: "extract_info quiet_world p d u = d" for p d u
    by (simp add: quiet_world_def)
  have x: "\<not> check_exit_intent ''I would rather not say''"
    by (rule no_exit_intent_example)
  show ?thesis
    unfolding process_message_def Let_def
    by (simp add: x e g r)
qed

lemma missing_fields_info_required:
  "missing_fields info_required
     = [''phone'', ''experience_years'', ''desired_positions'', ''location'']"
  by (simp add: missing_fields_def get_dict required_fields_def optional_fields_def
      info_required_def empty_info_def)

theorem info_gathering_transition_witness:
  "(\<forall>tech. valid_random (random_for quiet_world tech))
   \<and> \<not> check_exit_intent ''I would rather not say''
   \<and> conversation_phase gathering_session = ''InfoGathering''
   \<and> conversation_phase complete_gathering_session = ''InfoGathering''
   \<and> (\<exists>response s'.
         process_message quiet_world gathering_session ''I would rather not say'' = Inr (response, s')
         \<and> candidate_data s' = info_required
         \<and> conversation_phase s' = ''InfoGathering''
         \<and> \<not> truthy (get (dict (candidate_data s')) ''phone'')
         \<and> missing_fields (candidate_data s') \<noteq> []
         \<and> response = ''And your phone number?'')
   \<and> (\<exists>response s'.
         process_message quiet_world complete_gathering_session ''I would rather not say''
           = Inr (response, s')
         \<and> candidate_data s' = info_full
         \<and> conversation_phase s' = ''Questioning''
         \<and> questions s' \<noteq> [] \<and> current_question_index s' = 0)"
proof -
  have p: "conversation_phase gathering_session = ''InfoGathering''"
    by (simp add: gathering_session_def)
  have pc: "conversation_phase complete_gathering_session = ''InfoGathering''"
    by (simp add: complete_gathering_session_def gathering_session_def)
  obtain response s' where r:
    "process_message quiet_world gathering_session ''I would rather not say'' = Inr (response, s')"
    "candidate_data s' = extract_info quiet_world ''InfoGathering''
        (candidate_data gathering_session) ''I would rather not say''"
    "conversation_phase s' = ''Questioning'' \<or> conversation_phase s' = ''InfoGathering''"
    "conversation_phase s' = ''Questioning'' \<longleftrightarrow>
                truthy (get (dict (candidate_data s')) ''full_name'')
                \<and> truthy (get (dict (candidate_data s')) ''email'')
                \<and> truthy (get (dict (candidate_data s')) ''phone'')
                \<and> truthy (get (dict (candidate_data s')) ''experience_years'')
                \<and> truthy (get (dict (candidate_data s')) ''desired_positions'')
                \<and> truthy (get (dict (candidate_data s')) ''location'')
                \<and> truthy (get (dict (candidate_data s')) ''tech_stack'')"
    "conversation_phase s' = ''InfoGathering'' \<longrightarrow>
                missing_fields (candidate_data s') \<noteq> []
                \<and> map_of phase_questions (hd (missing_fields (candidate_data s'))) = Some response
                \<and> response = get_next_question (candidate_data s')
                \<and> questions s' = questions gathering_session
                \<and> current_question_index s' = current_question_index gathering_session"
    using info_gathering_transition [OF quiet_world_random no_exit_intent_example p]
    by (elim exE conjE)
  have c: "candidate_data s' = info_required"
    using r(2) by (simp add: quiet_world_def gathering_session_def)
  have n: "\<not> truthy (get (dict (candidate_data s')) ''phone'')"
    unfolding c by (simp add: get_dict info_required_def empty_info_def)
  then have g: "conversation_phase s' = ''InfoGathering''"
    using r(3,4) by blast
  have m: "missing_fields (candidate_data s') \<noteq> []"
    "map_of phase_questions (hd (missing_fields (candidate_data s'))) = Some response"
    using r(5) g by simp_all
  have "map_of phase_questions ''phone'' = Some response"
    using m(2) unfolding c missing_fields_info_required by simp
  then have a: "response = ''And your phone number?''"
    by (simp add: phase_questions_def)
  have first: "\<exists>response s'.
         process_message quiet_world gathering_session ''I would rather not say'' = Inr (response, s')
         \<and> candidate_data s' = info_required
         \<and> conversation_phase s' = ''InfoGathering''
         \<and> \<not> truthy (get (dict (candidate_data s')) ''phone'')
         \<and> missing_fields (candidate_data s') \<noteq> []
         \<and> response = ''And your phone number?''"
    using r(1) c g n m(1) a by blast
  obtain response2 s2 where r2:
    "process_message quiet_world complete_gathering_session ''I would rather not say''
       = Inr (response2, s2)"
    "candidate_data s2 = extract_info quiet_world ''InfoGathering''
        (candidate_data complete_gathering_session) ''I would rather not say''"
    "conversation_phase s2 = ''Questioning'' \<longleftrightarrow>
                truthy (get (dict (candidate_data s2)) ''full_name'')
                \<and> truthy (get (dict (candidate_data s2)) ''email'')
                \<and> truthy (get (dict (candidate_data s2)) ''phone'')
                \<and> truthy (get (dict (candidate_data s2)) ''experience_years'')
                \<and> truthy (get (dict (candidate_data s2)) ''desired_positions'')
                \<and> truthy (get (dict (candidate_data s2)) ''location'')
                \<and> truthy (get (dict (candidate_data s2)) ''tech_stack'')"
    "conversation_phase s2 = ''Questioning'' \<longrightarrow>
                questions s2 \<noteq> [] \<and> current_question_index s2 = 0
                \<and> response2 = technical_intro
                     (or_default (tech_stack (candidate_data s2)) ''various technologies'')
                     (length (questions s2)) (hd (questions s2))"
    using info_gathering_transition [OF quiet_world_random no_exit_intent_example pc]
    by (elim exE conjE)
  have c2: "candidate_data s2 = info_full"
    using r2(2) by (simp add: quiet_world_def complete_gathering_session_def)
  have q2: "conversation_phase s2 = ''Questioning''"
    unfolding r2(3) c2 by (simp add: get_dict info_full_def)
  have second: "\<exists>response s'.
         process_message quiet_world complete_gathering_session ''I would rather not say''
           = Inr (response, s')
         \<and> candidate_data s' = info_full
         \<and> conversation_phase s' = ''Questioning''
         \<and> questions s' \<noteq> [] \<and> current_question_index s' = 0"
    using r2(1,4) c2 q2 by blast
  show ?thesis
    using quiet_world_random no_exit_intent_example p pc first second by blast
qed

text \<open>
  Claim C1 as stated fails: a session in the InfoGathering phase whose profile has
  full_name, email and tech_stack but none of the optional fields stays in
  InfoGathering after a message from which nothing is extracted, and is asked for the
  phone number.
\<close>

theorem three_required_fields_counterexample:
  "list_all (\<lambda>f. truthy (get (dict (candidate_data gathering_session)) f)) required_fields
   \<and> conversation_phase gathering_session = ''InfoGathering''
   \<and> \<not> check_exit_intent ''I would rather not say''
   \<and> (case process_message quiet_world gathering_session ''I would rather not say'' of
         Inl e \<Rightarrow> False
       | Inr (response, s') \<Rightarrow>
           response = ''And your phone number?'' \<and> candidate_data s' = info_required
           \<and> conversation_phase s' = ''InfoGathering'' \<and> conversation_phase s' \<noteq> ''Questioning'')"
proof -
  have "list_all (\<lambda>f. truthy (get (dict (candidate_data gathering_session)) f)) required_fields"
    by (simp add: gathering_session_def required_fields_def get_dict info_required_def
        empty_info_def)
  then show ?thesis
    using no_exit_intent_example
    unfolding process_message_gathering_example
    by (simp add: gathering_session_def)
qed

lemma exit_intent_stop: "check_exit_intent ''stop''"
  by code_simp

lemma no_exit_intent_answer: "\<not> check_exit_intent ''It depends''"
  by code_simp

text \<open>
  No message moves a session backwards on the path Greeting, InfoGathering,
  Questioning, Conclusion.
\<close>

lemma phase_order_simps:
  "phase_order ''Greeting'' = 0" "phase_order ''InfoGathering'' = 1"
  "phase_order ''Questioning'' = 2" "phase_order ''Conclusion'' = 3"
  by (simp_all add: phase_order_def)

lemma route_greeting:
  assumes "conversation_phase s = ''Greeting''" and "route w s = Inr (response, s')"
  shows "conversation_phase s' = ''InfoGathering''"
proof -
  have "s' = s\<lparr>conversation_phase := ''InfoGathering''\<rparr>"
    using assms by (simp add: route_def)
  then show ?thesis by simp
qed

lemma route_gathering:
  assumes p: "conversation_phase s = ''InfoGathering''" and r: "route w s = Inr (response, s')"
  shows "conversation_phase s' = ''InfoGathering'' \<or> conversation_phase s' = ''Questioning''"
proof (cases "is_complete (candidate_data s)")
  case True
  show ?thesis
  proof (cases "generate_technical_questions w (candidate_data s)")
    case (Inl e)
    then show ?thesis using p r True by (simp add: route_def)
  next
    case (Inr x)
    obtain resp qs where "x = (resp, qs)" by (cases x)
    then have "s' = s\<lparr>conversation_phase := ''Questioning'', questions := qs,
                                       current_question_index := 0\<rparr>"
      using p r True Inr by (simp add: route_def)
    then show ?thesis by simp
  qed
next
  case False
  have "s' = s" using p r False by (simp add: route_def)
  then show ?thesis using p by simp
qed

lemma route_questioning:
  assumes p: "conversation_phase s = ''Questioning''" and r: "route w s = Inr (response, s')"
  shows "conversation_phase s' = ''Questioning'' \<or> conversation_phase s' = ''Conclusion''"
proof (cases "int (current_question_index s) < int (length (questions s)) - 1")
  case True
  have "s' = s\<lparr>current_question_index := current_question_index s + 1\<rparr>"
    using p r True by (simp add: route_def Let_def)
  then show ?thesis using p by simp
next
  case False
  have "s' = s\<lparr>conversation_phase := ''Conclusion''\<rparr>"
    using p r False by (simp add: route_def)
  then show ?thesis by simp
qed

lemma route_other:
  assumes "conversation_phase s \<noteq> ''Greeting''" and "conversation_phase s \<noteq> ''InfoGathering''"
    and "conversation_phase s \<noteq> ''Questioning''" and "route w s = Inr (response, s')"
  shows "s' = s"
  using assms by (simp add: route_def split: if_splits)

lemma route_no_backward:
  assumes r: "route w s = Inr (response, s')"
  shows "phase_order (conversation_phase s) \<le> phase_order (conversation_phase s')"
proof -
  consider (g) "conversation_phase s = ''Greeting''" | (i) "conversation_phase s = ''InfoGathering''"
    | (q) "conversation_phase s = ''Questioning''"
    | (o) "conversation_phase s \<noteq> ''Greeting''" "conversation_phase s \<noteq> ''InfoGathering''"
        "conversation_phase s \<noteq> ''Questioning''"
    by blast
  then show ?thesis
  proof cases
    case g
    show ?thesis
      unfolding g route_greeting [OF g r] by (simp add: phase_order_simps)
  next
    case i
    from route_gathering [OF i r] show ?thesis
    proof
      assume a: "conversation_phase s' = ''InfoGathering''"
      show ?thesis unfolding i a by (simp add: phase_order_simps)
    next
      assume a: "conversation_phase s' = ''Questioning''"
      show ?thesis unfolding i a by (simp add: phase_order_simps)
    qed
  next
    case q
    from route_questioning [OF q r] show ?thesis
    proof
      assume a: "conversation_phase s' = ''Questioning''"
      show ?thesis unfolding q a by (simp add: phase_order_simps)
    next
      assume a: "conversation_phase s' = ''Conclusion''"
      show ?thesis unfolding q a by (simp add: phase_order_simps)
    qed
  next
    case o
    show ?thesis
      using route_other [OF o r] by simp
  qed
qed

lemma process_message_no_backward:
  assumes "process_message w s user_input = Inr (response, s')"
  shows "phase_order (conversation_phase s) \<le> phase_order (conversation_phase s')"
proof (cases "check_exit_intent user_input")
  case True
  have "s' = s\<lparr>conversation_history := conversation_history s @ [(''user'', user_input)]\<rparr>"
    using assms process_message_exit [OF True, of w s] by simp
  then show ?thesis by simp
next
  case False
  define s2 where "s2 = s\<lparr>conversation_history := conversation_history s @ [(''user'', user_input)],
      candidate_data := extract_info w (conversation_phase s) (candidate_data s) user_input\<rparr>"
  obtain s3 where r: "route w s2 = Inr (response, s3)"
    and e: "s' = s3\<lparr>conversation_history := conversation_history s3 @ [(''assistant'', response)]\<rparr>"
    using assms False
    by (auto simp: process_message_def Let_def s2_def split: sum.splits prod.splits)
  have "phase_order (conversation_phase s2) \<le> phase_order (conversation_phase s3)"
    using r by (rule route_no_backward)
  then show ?thesis
    by (simp add: e s2_def)
qed

lemma route_questioning_next:
  assumes "conversation_phase s = ''Questioning''"
    and "current_question_index s + 1 < length (questions s)"
  shows "route w s =
     Inr (''Great answer! Next question:'' @ [CHR 0x0A, CHR 0x0A] @ ''**Question ''
            @ str_nat (Suc (Suc (current_question_index s))) @ '':** ''
            @ questions s ! Suc (current_question_index s),
          s\<lparr>current_question_index := Suc (current_question_index s)\<rparr>)"
proof -
  have "int (current_question_index s) < int (length (questions s)) - 1"
    using assms(2) by simp
  then show ?thesis
    using assms(1) by (simp add: route_def Let_def)
qed

lemma process_message_questioning_next:
  assumes "\<not> check_exit_intent user_input"
    and "conversation_phase s = ''Questioning''"
    and "current_question_index s + 1 < length (questions s)"
  shows "\<exists>s'. process_message w s user_input =
     Inr (''Great answer! Next question:'' @ [CHR 0x0A, CHR 0x0A] @ ''**Question ''
            @ str_nat (Suc (Suc (current_question_index s))) @ '':** ''
            @ questions s ! Suc (current_question_index s), s')
     \<and> current_question_index s' = Suc (current_question_index s)
     \<and> conversation_phase s' = ''Questioning''"
proof -
  define s2 where "s2 = s\<lparr>conversation_history := conversation_history s @ [(''user'', user_input)],
      candidate_data := extract_info w (conversation_phase s) (candidate_data s) user_input\<rparr>"
  have f: "conversation_phase s2 = ''Questioning''"
    "current_question_index s2 + 1 < length (questions s2)"
    "current_question_index s2 = current_question_index s" "questions s2 = questions s"
    using assms(2,3) by (simp_all add: s2_def)
  have r: "route w s2 =
     Inr (''Great answer! Next question:'' @ [CHR 0x0A, CHR 0x0A] @ ''**Question ''
            @ str_nat (Suc (Suc (current_question_index s))) @ '':** ''
            @ questions s ! Suc (current_question_index s),
          s2\<lparr>current_question_index := Suc (current_question_index s)\<rparr>)"
    using route_questioning_next [OF f(1,2), of w] unfolding f(3,4) .
  have "process_message w s user_input =
      (case route w s2 of
         Inl e \<Rightarrow> Inl e
       | Inr (response, s3) \<Rightarrow>
           Inr (response, s3\<lparr>conversation_history :=
                  conversation_history s3 @ [(''assistant'', response)]\<rparr>))"
    using assms(1) by (simp add: process_message_def Let_def s2_def)
  then show ?thesis
    unfolding r using f(1) by simp
qed

text \<open>
  Claim C8 (the code differs from it). When the message has exit intent, processing
  ends before the extraction and the routing: the early-conclusion text is returned,
  and the state is as before but for the user message appended to the history, so
  the question index and the candidate profile are unchanged. But questions are
  asked again afterwards: the phase is unchanged too, and in the Questioning phase
  with questions left, the next message without exit intent is answered with the
  next question and the index moves on.
\<close>

theorem exit_intent_then_next_question:
  "(check_exit_intent user_input \<longrightarrow>
      process_message w s user_input =
        Inr (''Thank you for your time today, ''
               @ (case full_name (candidate_data s) of
                    None \<Rightarrow> ''there'' | Some name \<Rightarrow> if name = [] then ''there'' else name)
               @ ''! Our team will review the information shared. We'll be in touch soon regarding next steps. Have a great day!'',
             s\<lparr>conversation_history := conversation_history s @ [(''user'', user_input)]\<rparr>))
   \<and> (check_exit_intent user_input \<and> \<not> check_exit_intent next_input
        \<and> conversation_phase s = ''Questioning''
        \<and> current_question_index s + 1 < length (questions s) \<longrightarrow>
        (\<exists>response s' s''.
           process_message w s user_input = Inr (response, s')
           \<and> current_question_index s' = current_question_index s
           \<and> candidate_data s' = candidate_data s
           \<and> questions s' = questions s
           \<and> conversation_phase s' = ''Questioning''
           \<and> process_message w s' next_input =
               Inr (''Great answer! Next question:'' @ [CHR 0x0A, CHR 0x0A] @ ''**Question ''
                      @ str_nat (Suc (Suc (current_question_index s))) @ '':** ''
                      @ questions s ! Suc (current_question_index s), s'')
           \<and> current_question_index s'' = Suc (current_question_index s)
           \<and> conversation_phase s'' = ''Questioning''))"
proof (intro conjI impI)
  assume "check_exit_intent user_input"
  then show "process_message w s user_input =
        Inr (''Thank you for your time today, ''
               @ (case full_name (candidate_data s) of
                    None \<Rightarrow> ''there'' | Some name \<Rightarrow> if name = [] then ''there'' else name)
               @ ''! Our team will review the information shared. We'll be in touch soon regarding next steps. Have a great day!'',
             s\<lparr>conversation_history := conversation_history s @ [(''user'', user_input)]\<rparr>)"
    by (simp add: process_message_exit early_conclusion_def or_default_def)
next
  assume a: "check_exit_intent user_input \<and> \<not> check_exit_intent next_input
        \<and> conversation_phase s = ''Questioning''
        \<and> current_question_index s + 1 < length (questions s)"
  define s' where "s' = s\<lparr>conversation_history := conversation_history s @ [(''user'', user_input)]\<rparr>"
  have e: "process_message w s user_input = Inr (early_conclusion (candidate_data s), s')"
    unfolding s'_def using a by (simp add: process_message_exit)
  have f: "current_question_index s' = current_question_index s"
    "candidate_data s' = candidate_data s" "questions s' = questions s"
    "conversation_phase s' = ''Questioning''"
    using a by (simp_all add: s'_def)
  have n: "\<not> check_exit_intent next_input" "conversation_phase s' = ''Questioning''"
    "current_question_index s' + 1 < length (questions s')"
    using a by (simp_all add: s'_def)
  obtain s'' where x: "process_message w s' next_input =
     Inr (''Great answer! Next question:'' @ [CHR 0x0A, CHR 0x0A] @ ''**Question ''
            @ str_nat (Suc (Suc (current_question_index s'))) @ '':** ''
            @ questions s' ! Suc (current_question_index s'), s'')"
     "current_question_index s'' = Suc (current_question_index s')"
     "conversation_phase s'' = ''Questioning''"
    using process_message_questioning_next [OF n, of w] by blast
  show "\<exists>response s' s''.
           process_message w s user_input = Inr (response, s')
           \<and> current_question_index s' = current_question_index s
           \<and> candidate_data s' = candidate_data s
           \<and> questions s' = questions s
           \<and> conversation_phase s' = ''Questioning''
           \<and> process_message w s' next_input =
               Inr (''Great answer! Next question:'' @ [CHR 0x0A, CHR 0x0A] @ ''**Question ''
                      @ str_nat (Suc (Suc (current_question_index s))) @ '':** ''
                      @ questions s ! Suc (current_question_index s), s'')
           \<and> current_question_index s'' = Suc (current_question_index s)
           \<and> conversation_phase s'' = ''Questioning''"
    using e f x [unfolded f(1) f(3)] by blast
qed

theorem exit_intent_then_next_question_witness:
  "check_exit_intent ''stop'' \<and> \<not> check_exit_intent ''It depends''
   \<and> conversation_phase two_technology_session = ''Questioning''
   \<and> current_question_index two_technology_session + 1 < length (questions two_technology_session)
   \<and> process_message quiet_world two_technology_session ''stop'' =
        Inr (''Thank you for your time today, John Smith! Our team will review the information shared. We'll be in touch soon regarding next steps. Have a great day!'',
             two_technology_session\<lparr>conversation_history :=
               conversation_history two_technology_session @ [(''user'', ''stop'')]\<rparr>)
   \<and> (\<exists>response s' s''.
         process_message quiet_world two_technology_session ''stop'' = Inr (response, s')
         \<and> current_question_index s' = 1
         \<and> candidate_data s' = info_full
         \<and> conversation_phase s' = ''Questioning''
         \<and> process_message quiet_world s' ''It depends'' =
             Inr (''Great answer! Next question:'' @ [CHR 0x0A, CHR 0x0A]
                    @ ''**Question 3:** How do you profile a slow view?'', s'')
         \<and> current_question_index s'' = 2
         \<and> conversation_phase s'' = ''Questioning'')"
proof -
  have h: "check_exit_intent ''stop''" "\<not> check_exit_intent ''It depends''"
    "conversation_phase two_technology_session = ''Questioning''"
    "current_question_index two_technology_session + 1 < length (questions two_technology_session)"
    using exit_intent_stop no_exit_intent_answer by (simp_all add: two_technology_session_def)
  have v: "current_question_index two_technology_session = 1"
    "candidate_data two_technology_session = info_full"
    "full_name info_full = Some ''John Smith''"
    "questions two_technology_session ! Suc 1 = ''How do you profile a slow view?''"
    by (simp_all add: two_technology_session_def info_full_def)
  have n: "str_nat (Suc (Suc 1)) = ''3''"
    by code_simp
  note t = exit_intent_then_next_question
    [of "''stop''" quiet_world two_technology_session "''It depends''"]
  have first: "process_message quiet_world two_technology_session ''stop'' =
        Inr (''Thank you for your time today, John Smith! Our team will review the information shared. We'll be in touch soon regarding next steps. Have a great day!'',
             two_technology_session\<lparr>conversation_history :=
               conversation_history two_technology_session @ [(''user'', ''stop'')]\<rparr>)"
    using t h(1) unfolding v(2,3) by simp
  obtain response s' s'' where x:
    "process_message quiet_world two_technology_session ''stop'' = Inr (response, s')"
    "current_question_index s' = current_question_index two_technology_session"
    "candidate_data s' = candidate_data two_technology_session"
    "conversation_phase s' = ''Questioning''"
    "process_message quiet_world s' ''It depends'' =
               Inr (''Great answer! Next question:'' @ [CHR 0x0A, CHR 0x0A] @ ''**Question ''
                      @ str_nat (Suc (Suc (current_question_index two_technology_session))) @ '':** ''
                      @ questions two_technology_session
                          ! Suc (current_question_index two_technology_session), s'')"
    "current_question_index s'' = Suc (current_question_index two_technology_session)"
    "conversation_phase s'' = ''Questioning''"
    using t h by blast
  have y: "process_message quiet_world s' ''It depends'' =
             Inr (''Great answer! Next question:'' @ [CHR 0x0A, CHR 0x0A]
                    @ ''**Question 3:** How do you profile a slow view?'', s'')"
    using x(5) unfolding v(1) n v(4) by simp
  have "current_question_index s' = 1" "candidate_data s' = info_full"
    "current_question_index s'' = 2"
    using x(2,3,6) unfolding v(1,2) by simp_all
  then have second: "\<exists>response s' s''.
         process_message quiet_world two_technology_session ''stop'' = Inr (response, s')
         \<and> current_question_index s' = 1
         \<and> candidate_data s' = info_full
         \<and> conversation_phase s' = ''Questioning''
         \<and> process_message quiet_world s' ''It depends'' =
             Inr (''Great answer! Next question:'' @ [CHR 0x0A, CHR 0x0A]
                    @ ''**Question 3:** How do you profile a slow view?'', s'')
         \<and> current_question_index s'' = 2
         \<and> conversation_phase s'' = ''Questioning''"
    using x(1,4,7) y by blast
  show ?thesis
    using h first second by blast
qed

text \<open>
  Claim C4 (the code differs from it). "stop" in the Questioning phase, at question
  index 1 of 5, returns the early conclusion, but the phase of the session is still
  Questioning afterwards, not Conclusion; the next message is answered with
  question 3. (No step moves a session backwards: \<open>process_message_no_backward\<close>.)
\<close>

theorem exit_intent_leaves_phase:
  "check_exit_intent ''stop''
   \<and> (case process_message quiet_world questioning_session ''stop'' of
         Inl e \<Rightarrow> False
       | Inr (response, s') \<Rightarrow>
           response = early_conclusion (candidate_data questioning_session)
           \<and> conversation_phase s' = ''Questioning'' \<and> conversation_phase s' \<noteq> ''Conclusion''
           \<and> (case process_message quiet_world s' ''It depends'' of
                 Inl e \<Rightarrow> False
               | Inr (response', s'') \<Rightarrow>
                   response' = ''Great answer! Next question:'' @ [CHR 0x0A, CHR 0x0A]
                                 @ ''**Question 3:** How do you profile code?''
                   \<and> conversation_phase s'' = ''Questioning''
                   \<and> current_question_index s'' = 2))"
proof -
  define s1 where "s1 = questioning_session\<lparr>conversation_history :=
      conversation_history questioning_session @ [(''user'', ''stop'')]\<rparr>"
  have a: "process_message quiet_world questioning_session ''stop''
      = Inr (early_conclusion (candidate_data questioning_session), s1)"
    unfolding s1_def using exit_intent_stop by (rule process_message_exit)
  have p: "conversation_phase s1 = ''Questioning''" "current_question_index s1 = 1"
    "questions s1 = [''Explain closures?'', ''What is the GIL?'', ''How do you profile code?'',
       ''What is a generator?'', ''Why use a context manager?'']"
    by (simp_all add: s1_def questioning_session_def)
  have n: "str_nat 3 = ''3''" "str_nat (Suc (Suc (Suc 0))) = ''3''"
    by code_simp+
  have r: "route quiet_world s = Inr (''Great answer! Next question:'' @ [CHR 0x0A, CHR 0x0A]
                                 @ ''**Question 3:** How do you profile code?'',
                               s\<lparr>current_question_index := 2\<rparr>)"
    if "conversation_phase s = ''Questioning''" "current_question_index s = 1"
      "questions s = [''Explain closures?'', ''What is the GIL?'', ''How do you profile code?'',
       ''What is a generator?'', ''Why use a context manager?'']" for s
    using that by (simp add: route_def Let_def n)
  have e: "extract_info quiet_world ph d u = d" for ph d u
    by (simp add: quiet_world_def)
  have b: "case process_message quiet_world s1 ''It depends'' of
                 Inl e \<Rightarrow> False
               | Inr (response', s'') \<Rightarrow>
                   response' = ''Great answer! Next question:'' @ [CHR 0x0A, CHR 0x0A]
                                 @ ''**Question 3:** How do you profile code?''
                   \<and> conversation_phase s'' = ''Questioning''
                   \<and> current_question_index s'' = 2"
    unfolding process_message_def Let_def
    by (simp add: no_exit_intent_answer e r p)
  show ?thesis
    unfolding a using exit_intent_stop p(1) b by simp
qed

end
